theory Spec2Isabelle
  imports Complex_Main
begin

section \<open>Data model\<close>

text \<open>
  The tables the sale and sale-line controllers read and write. Identifiers are the
  integers \<^verbatim>\<open>parseInt\<close> yields; prices and totals are exact rationals (the
  rounding of JavaScript doubles is not modelled); \<open>estoque\<close> is the nullable integer
  column, \<open>None\<close> standing for SQL \<^verbatim>\<open>NULL\<close>. \<open>tipo\<close> and \<open>status\<close> are the strings
  the controllers compare against.
\<close>

type_synonym ident = int

record produto =
  preco :: rat
  estoque :: "int option"
  tipo :: string
  produto_status :: string

record venda =
  clienteId :: ident
  usuarioId :: ident
  data :: nat
  total :: rat
  status :: string
  observacoes :: "string option"

record itemVenda =
  item_id :: ident
  vendaId :: ident
  produtoId :: ident
  quantidade :: int
  precoUnit :: rat

record db =
  clientes :: "ident set"
  usuarios :: "ident set"
  produtos :: "ident \<rightharpoonup> produto"
  vendas :: "ident \<rightharpoonup> venda"
  itens :: "itemVenda list"
  prox_venda_id :: ident
  prox_item_id :: ident

subsection \<open>Errors\<close>

datatype campo = C_vendaId | C_produtoId | C_quantidade | C_precoUnit

datatype detalhe =
    ClienteNaoEncontrado ident
  | UsuarioNaoEncontrado ident
  | ProdutoInexistente ident
  | EstoqueInsuficienteProduto ident int int

datatype prisma_erro = P2003 | P2025 | P2034 | Validacao

datatype erro =
    IdInvalido
  | DadosInvalidos "campo list"
  | VendaNaoEncontrada
  | VendaConcluida
  | VendaCancelada
  | ProdutoNaoEncontrado
  | ProdutoNaoAtivo
  | EstoqueInsuficiente "int option" int
  | ItemNaoEncontrado
  | DadosObrigatorios
  | SemItens
  | ItemInvalido nat campo
  | ErroValidacao "detalhe list"
  | StatusInvalido
  | ErroPrisma prisma_erro
  | ErroTipo

subsection \<open>JavaScript truthiness and coercions\<close>

text \<open>
  A numeric field of a request body is \<open>None\<close> when the key is absent and \<open>Some n\<close>
  when it holds the number \<open>n\<close>. \<^verbatim>\<open>!x\<close> is true of an absent field and of zero;
  in a relational comparison \<^verbatim>\<open>null\<close> counts as zero.
\<close>

definition truthy :: "'a::zero option \<Rightarrow> bool" where
  "truthy x = (case x of None \<Rightarrow> False | Some n \<Rightarrow> n \<noteq> 0)"

definition truthy_str :: "string option \<Rightarrow> bool" where
  "truthy_str x = (case x of None \<Rightarrow> False | Some s \<Rightarrow> s \<noteq> [])"

definition null_as_zero :: "int option \<Rightarrow> int" where
  "null_as_zero x = (case x of None \<Rightarrow> 0 | Some n \<Rightarrow> n)"

section \<open>The storage layer\<close>

subsection \<open>Statements on one store\<close>

text \<open>
  Each Prisma call the controllers make, as a function of the store it runs against.
  A failing call is \<open>Inl\<close>: \<open>P2003\<close> is a foreign-key violation, \<open>P2025\<close> a missing
  row, \<open>Validacao\<close> an argument Prisma rejects (such as \<^verbatim>\<open>NaN\<close>), and \<open>P2034\<close> a
  statement that the database aborts for a reason of its own (a write conflict, a
  deadlock).
\<close>

definition itemVenda_findUnique :: "ident \<Rightarrow> db \<Rightarrow> itemVenda option" where
  "itemVenda_findUnique i d = find (\<lambda>it. item_id it = i) (itens d)"

definition itemVenda_findMany :: "ident \<Rightarrow> db \<Rightarrow> itemVenda list" where
  "itemVenda_findMany v d = filter (\<lambda>it. vendaId it = v) (itens d)"

definition itemVenda_create ::
  "ident \<Rightarrow> ident \<Rightarrow> int option \<Rightarrow> rat \<Rightarrow> db \<Rightarrow> erro + db \<times> itemVenda" where
  "itemVenda_create v p q pu d =
     (case q of
        None \<Rightarrow> Inl (ErroPrisma Validacao)
      | Some n \<Rightarrow>
          if vendas d v = None \<or> produtos d p = None then Inl (ErroPrisma P2003)
          else
            let novoItem = \<lparr>item_id = prox_item_id d, vendaId = v, produtoId = p,
                             quantidade = n, precoUnit = pu\<rparr>
            in Inr (d\<lparr>itens := itens d @ [novoItem],
                       prox_item_id := prox_item_id d + 1\<rparr>, novoItem))"

record dadosAtualizacao =
  da_quantidade :: "int option"
  da_precoUnit :: "rat option"
  da_produtoId :: "ident option"

definition aplicar_dados :: "dadosAtualizacao \<Rightarrow> itemVenda \<Rightarrow> itemVenda" where
  "aplicar_dados da it =
     it\<lparr>quantidade := (case da_quantidade da of None \<Rightarrow> quantidade it | Some q \<Rightarrow> q),
        precoUnit := (case da_precoUnit da of None \<Rightarrow> precoUnit it | Some p \<Rightarrow> p),
        produtoId := (case da_produtoId da of None \<Rightarrow> produtoId it | Some p \<Rightarrow> p)\<rparr>"

definition itemVenda_update ::
  "ident \<Rightarrow> dadosAtualizacao \<Rightarrow> db \<Rightarrow> erro + db \<times> itemVenda" where
  "itemVenda_update i da d =
     (case itemVenda_findUnique i d of
        None \<Rightarrow> Inl (ErroPrisma P2025)
      | Some it \<Rightarrow>
          if (case da_produtoId da of None \<Rightarrow> False | Some p \<Rightarrow> produtos d p = None)
          then Inl (ErroPrisma P2003)
          else Inr (d\<lparr>itens := map (\<lambda>x. if item_id x = i then aplicar_dados da x else x)
                                    (itens d)\<rparr>,
                    aplicar_dados da it))"

definition itemVenda_delete :: "ident \<Rightarrow> db \<Rightarrow> erro + db \<times> unit" where
  "itemVenda_delete i d =
     (case itemVenda_findUnique i d of
        None \<Rightarrow> Inl (ErroPrisma P2025)
      | Some it \<Rightarrow> Inr (d\<lparr>itens := filter (\<lambda>x. item_id x \<noteq> i) (itens d)\<rparr>, ()))"

definition venda_update :: "ident \<Rightarrow> (venda \<Rightarrow> venda) \<Rightarrow> db \<Rightarrow> erro + db \<times> venda" where
  "venda_update v f d =
     (case vendas d v of
        None \<Rightarrow> Inl (ErroPrisma P2025)
      | Some r \<Rightarrow> Inr (d\<lparr>vendas := (vendas d)(v \<mapsto> f r)\<rparr>, f r))"

subsection \<open>Interactive transactions\<close>

text \<open>
  \<^verbatim>\<open>prisma.$transaction(async (tx) => { ... })\<close> hands the callback a client \<open>tx\<close>
  bound to one open transaction. A statement issued through \<open>tx\<close> sees the committed
  rows and the transaction's own earlier writes, and its effect stays pending until
  the callback returns. A statement issued through the module-level client
  \<^verbatim>\<open>prisma\<close> while the callback runs is not part of that transaction: it uses a
  different connection, sees the committed rows only and commits on its own. When
  the callback returns, the pending effects are committed, in order; when it throws,
  they are discarded, and what the module-level client wrote stays. Requests are
  handled one at a time, and row locks are not modelled: no statement waits for
  another.
\<close>

record tx_ctx =
  committed :: db
  pending :: "(db \<Rightarrow> db) list"

definition tx_view :: "tx_ctx \<Rightarrow> db" where
  "tx_view c = foldl (\<lambda>d w. w d) (committed c) (pending c)"

definition efeito :: "(db \<Rightarrow> erro + db \<times> 'a) \<Rightarrow> db \<Rightarrow> db" where
  "efeito op d = (case op d of Inl e \<Rightarrow> d | Inr (d', a) \<Rightarrow> d')"

definition via_tx :: "(db \<Rightarrow> erro + db \<times> 'a) \<Rightarrow> tx_ctx \<Rightarrow> tx_ctx \<times> (erro + 'a)" where
  "via_tx op c =
     (case op (tx_view c) of
        Inl e \<Rightarrow> (c, Inl e)
      | Inr (d', a) \<Rightarrow> (c\<lparr>pending := pending c @ [efeito op]\<rparr>, Inr a))"

definition via_prisma :: "(db \<Rightarrow> erro + db \<times> 'a) \<Rightarrow> tx_ctx \<Rightarrow> tx_ctx \<times> (erro + 'a)" where
  "via_prisma op c =
     (case op (committed c) of
        Inl e \<Rightarrow> (c, Inl e)
      | Inr (d', a) \<Rightarrow> (c\<lparr>committed := d'\<rparr>, Inr a))"

definition tx_bind ::
  "(tx_ctx \<Rightarrow> tx_ctx \<times> (erro + 'a)) \<Rightarrow> ('a \<Rightarrow> tx_ctx \<Rightarrow> tx_ctx \<times> (erro + 'b)) \<Rightarrow>
   tx_ctx \<Rightarrow> tx_ctx \<times> (erro + 'b)" where
  "tx_bind m f c =
     (case m c of
        (c', Inl e) \<Rightarrow> (c', Inl e)
      | (c', Inr a) \<Rightarrow> f a c')"

definition tx_return :: "'a \<Rightarrow> tx_ctx \<Rightarrow> tx_ctx \<times> (erro + 'a)" where
  "tx_return a c = (c, Inr a)"

definition transaction :: "(tx_ctx \<Rightarrow> tx_ctx \<times> (erro + 'a)) \<Rightarrow> db \<Rightarrow> db \<times> (erro + 'a)" where
  "transaction body d =
     (case body \<lparr>committed = d, pending = []\<rparr> of
        (c, Inl e) \<Rightarrow> (committed c, Inl e)
      | (c, Inr a) \<Rightarrow> (tx_view c, Inr a))"

section \<open>The sale-line controller\<close>

text \<open>
  The controller of \<^verbatim>\<open>/api/itensvenda\<close>. Its handlers \<open>create\<close>, \<open>update\<close> and
  \<open>remove\<close> are \<open>create_item\<close>, \<open>update_item\<close> and \<open>remove_item\<close> here; each
  takes the request and the store, and returns the store it leaves with its answer,
  \<open>Inl\<close> for every error response. \<open>item_req\<close> is the request body.
\<close>

record item_req =
  r_vendaId :: "ident option"
  r_produtoId :: "ident option"
  r_quantidade :: "int option"
  r_precoUnit :: "rat option"

definition validarItemVenda :: "item_req \<Rightarrow> bool \<Rightarrow> campo list" where
  "validarItemVenda dados isUpdate =
     (if \<not> isUpdate then
        (if \<not> truthy (r_vendaId dados) then [C_vendaId] else []) @
        (if \<not> truthy (r_produtoId dados) then [C_produtoId] else [])
      else []) @
     (case r_quantidade dados of
        None \<Rightarrow> []
      | Some q \<Rightarrow> if q \<le> 0 then [C_quantidade] else []) @
     (case r_precoUnit dados of
        None \<Rightarrow> []
      | Some p \<Rightarrow> if p < 0 then [C_precoUnit] else [])"

text \<open>
  \<open>quantidade = None\<close> is the \<^verbatim>\<open>NaN\<close> that \<^verbatim>\<open>parseInt(undefined)\<close> yields:
  every comparison with it is false. \<^verbatim>\<open>if (itemId)\<close> skips an absent and a zero id.
\<close>

definition verificarDisponibilidadeProduto ::
  "ident option \<Rightarrow> int option \<Rightarrow> ident option \<Rightarrow> db \<Rightarrow> erro + produto \<times> int option" where
  "verificarDisponibilidadeProduto pid qtd itemId d =
     (case pid of
        None \<Rightarrow> Inl (ErroPrisma Validacao)
      | Some p \<Rightarrow>
         (case produtos d p of
            None \<Rightarrow> Inl ProdutoNaoEncontrado
          | Some produto \<Rightarrow>
              if produto_status produto \<noteq> ''Ativo'' then Inl ProdutoNaoAtivo
              else
                let quantidadeNecessaria =
                      (case qtd of
                         None \<Rightarrow> None
                       | Some q \<Rightarrow>
                           if truthy itemId then
                             (case itemVenda_findUnique (the itemId) d of
                                None \<Rightarrow> Some q
                              | Some itemAtual \<Rightarrow> Some (q - quantidade itemAtual))
                           else Some q)
                in (case quantidadeNecessaria of
                      None \<Rightarrow> Inr (produto, None)
                    | Some n \<Rightarrow>
                        if null_as_zero (estoque produto) < n
                        then Inl (EstoqueInsuficiente (estoque produto) n)
                        else Inr (produto, Some n))))"

definition verificarVendaModificavel :: "ident option \<Rightarrow> db \<Rightarrow> erro + venda" where
  "verificarVendaModificavel vid d =
     (case vid of
        None \<Rightarrow> Inl (ErroPrisma Validacao)
      | Some v \<Rightarrow>
         (case vendas d v of
            None \<Rightarrow> Inl VendaNaoEncontrada
          | Some venda \<Rightarrow>
              if status venda = ''Concluida'' then Inl VendaConcluida
              else if status venda = ''Cancelada'' then Inl VendaCancelada
              else Inr venda))"

text \<open>
  \<open>atualizarTotalVenda\<close> reads the lines and writes the total through the
  module-level client \<^verbatim>\<open>prisma\<close>, whoever calls it.
\<close>

definition atualizarTotalVenda :: "ident \<Rightarrow> db \<Rightarrow> erro + db \<times> rat" where
  "atualizarTotalVenda v d =
     (let linhas = itemVenda_findMany v d;
          totalVenda = foldl (\<lambda>acc item. acc + of_int (quantidade item) * precoUnit item)
                         0 linhas
      in case venda_update v (\<lambda>r. r\<lparr>total := totalVenda\<rparr>) d of
           Inl e \<Rightarrow> Inl e
         | Inr (d', r) \<Rightarrow> Inr (d', totalVenda))"

definition create_item :: "item_req \<Rightarrow> db \<Rightarrow> db \<times> (erro + itemVenda)" where
  "create_item req d =
     (let errors = validarItemVenda req False in
      if errors \<noteq> [] then (d, Inl (DadosInvalidos errors))
      else
        case verificarVendaModificavel (r_vendaId req) d of
          Inl e \<Rightarrow> (d, Inl e)
        | Inr vendaStatus \<Rightarrow>
           (case verificarDisponibilidadeProduto (r_produtoId req) (r_quantidade req) None d of
              Inl e \<Rightarrow> (d, Inl e)
            | Inr (produto, qn) \<Rightarrow>
                let precoFinal = (if truthy (r_precoUnit req) then the (r_precoUnit req)
                                  else preco produto)
                in transaction
                     (tx_bind
                        (via_tx (itemVenda_create (the (r_vendaId req)) (the (r_produtoId req))
                                   (r_quantidade req) precoFinal))
                        (\<lambda>novoItem.
                           tx_bind (via_prisma (atualizarTotalVenda (the (r_vendaId req))))
                             (\<lambda>t. tx_return novoItem)))
                     d))"

definition update_item :: "ident option \<Rightarrow> item_req \<Rightarrow> db \<Rightarrow> db \<times> (erro + itemVenda)" where
  "update_item ido req d =
     (case ido of
        None \<Rightarrow> (d, Inl IdInvalido)
      | Some i \<Rightarrow>
         (let errors = validarItemVenda req True in
          if errors \<noteq> [] then (d, Inl (DadosInvalidos errors))
          else
            case itemVenda_findUnique i d of
              None \<Rightarrow> (d, Inl ItemNaoEncontrado)
            | Some itemAtual \<Rightarrow>
               (case vendas d (vendaId itemAtual) of
                  None \<Rightarrow> (d, Inl ErroTipo)
                | Some v0 \<Rightarrow>
                   (case verificarVendaModificavel (Some (vendaId itemAtual)) d of
                      Inl e \<Rightarrow> (d, Inl e)
                    | Inr vendaStatus \<Rightarrow>
                       (case (if truthy (r_produtoId req) \<or> truthy (r_quantidade req) then
                                (let produtoAlvo = (if truthy (r_produtoId req)
                                                    then the (r_produtoId req)
                                                    else produtoId itemAtual);
                                     quantidadeAlvo = (if truthy (r_quantidade req)
                                                       then the (r_quantidade req)
                                                       else quantidade itemAtual)
                                 in case verificarDisponibilidadeProduto (Some produtoAlvo)
                                           (Some quantidadeAlvo) (Some i) d of
                                      Inl e \<Rightarrow> Some e
                                    | Inr ok \<Rightarrow> None)
                              else None) of
                          Some e \<Rightarrow> (d, Inl e)
                        | None \<Rightarrow>
                            transaction
                              (tx_bind
                                 (via_tx (itemVenda_update i
                                    \<lparr>da_quantidade = (if truthy (r_quantidade req)
                                                       then r_quantidade req else None),
                                     da_precoUnit = (if truthy (r_precoUnit req)
                                                      then r_precoUnit req else None),
                                     da_produtoId = (if truthy (r_produtoId req)
                                                      then r_produtoId req else None)\<rparr>))
                                 (\<lambda>itemAtualizado.
                                    tx_bind (via_prisma
                                               (atualizarTotalVenda (vendaId itemAtualizado)))
                                      (\<lambda>t. tx_return itemAtualizado)))
                              d)))))"

definition remove_item :: "ident option \<Rightarrow> db \<Rightarrow> db \<times> (erro + ident)" where
  "remove_item ido d =
     (case ido of
        None \<Rightarrow> (d, Inl IdInvalido)
      | Some i \<Rightarrow>
         (case itemVenda_findUnique i d of
            None \<Rightarrow> (d, Inl ItemNaoEncontrado)
          | Some item \<Rightarrow>
             (case vendas d (vendaId item) of
                None \<Rightarrow> (d, Inl ErroTipo)
              | Some v0 \<Rightarrow>
                 (case verificarVendaModificavel (Some (vendaId item)) d of
                    Inl e \<Rightarrow> (d, Inl e)
                  | Inr vendaStatus \<Rightarrow>
                      transaction
                        (tx_bind (via_tx (itemVenda_delete i))
                           (\<lambda>u. tx_bind (via_prisma (atualizarTotalVenda (vendaId item)))
                                  (\<lambda>t. tx_return (vendaId item))))
                        d))))"

section \<open>The sale controller\<close>

text \<open>
  The controller of \<^verbatim>\<open>/api/vendas\<close>, in the copy that checks the product type
  before it moves stock. Its handlers \<open>create\<close>, \<open>update\<close> and \<open>remove\<close> are
  \<open>create_venda\<close>, \<open>update_venda\<close> and \<open>remove_venda\<close> here; \<open>updateStatus\<close>
  keeps its name. Dates are not parsed: a request carries the date its string
  converts to.
\<close>

subsection \<open>Statements\<close>

definition produto_update_estoque :: "ident \<Rightarrow> int \<Rightarrow> db \<Rightarrow> erro + db \<times> unit" where
  "produto_update_estoque p delta d =
     (case produtos d p of
        None \<Rightarrow> Inl (ErroPrisma P2025)
      | Some r \<Rightarrow>
          Inr (d\<lparr>produtos := (produtos d)(p \<mapsto> r\<lparr>estoque := map_option (\<lambda>s. s + delta)
                                                                    (estoque r)\<rparr>)\<rparr>, ()))"

definition numerar :: "ident \<Rightarrow> ident \<Rightarrow> (ident \<times> int \<times> rat) list \<Rightarrow> itemVenda list" where
  "numerar v k its =
     map (\<lambda>(n, (p, q, pu)). \<lparr>item_id = k + int n, vendaId = v, produtoId = p,
                               quantidade = q, precoUnit = pu\<rparr>)
       (enumerate 0 its)"

definition venda_create ::
  "venda \<Rightarrow> (ident \<times> int \<times> rat) list \<Rightarrow> db \<Rightarrow> erro + db \<times> (ident \<times> itemVenda list)" where
  "venda_create r its d =
     (if clienteId r \<notin> clientes d \<or> usuarioId r \<notin> usuarios d \<or>
         list_ex (\<lambda>(p, q, pu). produtos d p = None) its
      then Inl (ErroPrisma P2003)
      else
        let v = prox_venda_id d;
            novos = numerar v (prox_item_id d) its
        in Inr (d\<lparr>vendas := (vendas d)(v \<mapsto> r),
                   itens := itens d @ novos,
                   prox_venda_id := v + 1,
                   prox_item_id := prox_item_id d + int (length its)\<rparr>, (v, novos)))"

text \<open>
  Modelled from the spec: the Prisma schema is not among the sources, so the
  referential action of the relation from sale lines to their sale is taken from the
  specification (\<open>SaleLine\<rightarrow>Sale (cascade delete)\<close>), which is also what the
  controller's own comment expects: deleting a sale deletes its lines.
\<close>

definition venda_delete :: "ident \<Rightarrow> db \<Rightarrow> erro + db \<times> unit" where
  "venda_delete v d =
     (case vendas d v of
        None \<Rightarrow> Inl (ErroPrisma P2025)
      | Some r \<Rightarrow>
          Inr (d\<lparr>vendas := (vendas d)(v := None),
                  itens := filter (\<lambda>it. vendaId it \<noteq> v) (itens d)\<rparr>, ()))"

text \<open>
  \<^verbatim>\<open>include: { itens: { include: { produto: { select: { id, tipo } } } } }\<close>:
  the lines of a sale, each with the type of its product as read with the sale.
\<close>

definition itens_com_produto :: "ident \<Rightarrow> db \<Rightarrow> (itemVenda \<times> string option) list" where
  "itens_com_produto v d =
     map (\<lambda>it. (it, map_option tipo (produtos d (produtoId it)))) (itemVenda_findMany v d)"

subsection \<open>Validation\<close>

text \<open>
  \<open>validar_itens\<close> is the loop of \<open>create\<close> that returns at the first invalid
  line, and \<open>verificar_produto\<close> the body of the loop over the lines in
  \<open>verificarExistenciaRegistros\<close>.
\<close>

record item_entrada =
  e_produtoId :: "ident option"
  e_quantidade :: "int option"
  e_precoUnit :: "rat option"

record venda_req =
  q_clienteId :: "ident option"
  q_usuarioId :: "ident option"
  q_data :: nat
  q_status :: "string option"
  q_itens :: "item_entrada list option"
  q_total :: "rat option"
  q_observacoes :: "string option"

fun validar_itens :: "nat \<Rightarrow> item_entrada list \<Rightarrow> erro option" where
  "validar_itens index [] = None"
| "validar_itens index (item # resto) =
     (if \<not> truthy (e_produtoId item) then Some (ItemInvalido (index + 1) C_produtoId)
      else if \<not> truthy (e_quantidade item) \<or> the (e_quantidade item) \<le> 0
        then Some (ItemInvalido (index + 1) C_quantidade)
      else if \<not> truthy (e_precoUnit item) \<or> the (e_precoUnit item) < 0
        then Some (ItemInvalido (index + 1) C_precoUnit)
      else validar_itens (index + 1) resto)"

definition verificar_produto :: "item_entrada \<Rightarrow> db \<Rightarrow> detalhe list" where
  "verificar_produto item d =
     (case produtos d (the (e_produtoId item)) of
        None \<Rightarrow> [ProdutoInexistente (the (e_produtoId item))]
      | Some produto \<Rightarrow>
          if tipo produto = ''Produto'' \<and>
             the (e_quantidade item) > null_as_zero (estoque produto)
          then [EstoqueInsuficienteProduto (the (e_produtoId item))
                  (null_as_zero (estoque produto)) (the (e_quantidade item))]
          else [])"

definition verificarExistenciaRegistros ::
  "ident \<Rightarrow> ident \<Rightarrow> item_entrada list \<Rightarrow> db \<Rightarrow> detalhe list" where
  "verificarExistenciaRegistros cid uid linhas d =
     (if cid \<notin> clientes d then [ClienteNaoEncontrado cid] else []) @
     (if uid \<notin> usuarios d then [UsuarioNaoEncontrado uid] else []) @
     concat (map (\<lambda>item. verificar_produto item d) linhas)"

subsection \<open>Stock adjustment loops\<close>

text \<open>
  The loop of \<open>create\<close> runs over the request's lines and looks each product up
  through \<open>tx\<close>; a line whose product is missing, is not of type \<open>Produto\<close>, or has a
  null stock is skipped.
\<close>

fun baixar_estoque :: "item_entrada list \<Rightarrow> db \<Rightarrow> erro + db \<times> unit" where
  "baixar_estoque [] d = Inr (d, ())"
| "baixar_estoque (item # resto) d =
     (case produtos d (the (e_produtoId item)) of
        None \<Rightarrow> baixar_estoque resto d
      | Some produto \<Rightarrow>
          if tipo produto = ''Produto'' \<and> estoque produto \<noteq> None then
            (case produto_update_estoque (the (e_produtoId item))
                    (- the (e_quantidade item)) d of
               Inl e \<Rightarrow> Inl e
             | Inr (d', u) \<Rightarrow> baixar_estoque resto d')
          else baixar_estoque resto d)"

text \<open>
  The loops of \<open>update\<close>, \<open>remove\<close> and \<open>updateStatus\<close> run over the lines read
  with the sale; \<open>sinal\<close> is \<open>-1\<close> for \<^verbatim>\<open>decrement\<close> and \<open>1\<close> for
  \<^verbatim>\<open>increment\<close>. \<^verbatim>\<open>item.produto.tipo\<close> throws when the product is null.
\<close>

fun ajustar_estoque :: "int \<Rightarrow> (itemVenda \<times> string option) list \<Rightarrow> db \<Rightarrow> erro + db \<times> unit" where
  "ajustar_estoque sinal [] d = Inr (d, ())"
| "ajustar_estoque sinal ((item, tp) # resto) d =
     (case tp of
        None \<Rightarrow> Inl ErroTipo
      | Some t \<Rightarrow>
          if t = ''Produto'' then
            (case produto_update_estoque (produtoId item) (sinal * quantidade item) d of
               Inl e \<Rightarrow> Inl e
             | Inr (d', u) \<Rightarrow> ajustar_estoque sinal resto d')
          else ajustar_estoque sinal resto d)"

subsection \<open>Handlers\<close>

text \<open>
  The callbacks of the sale controller issue every statement through \<open>tx\<close>. As
  long as the database aborts no statement for a reason of its own, a callback is
  therefore one function of the transaction's view, run under \<open>via_tx\<close>; this is
  how the handlers are given here. The callbacks of \<open>create\<close> and \<open>remove\<close> are
  given a second time below, statement by statement.
\<close>

definition status_validos :: "string list" where
  "status_validos = [''Concluida'', ''Pendente'', ''Cancelada'']"

definition create_venda_tx ::
  "venda \<Rightarrow> item_entrada list \<Rightarrow> db \<Rightarrow> erro + db \<times> (ident \<times> itemVenda list)" where
  "create_venda_tx r linhas d =
     (case venda_create r
             (map (\<lambda>item. (the (e_produtoId item), the (e_quantidade item),
                            the (e_precoUnit item))) linhas) d of
        Inl e \<Rightarrow> Inl e
      | Inr (d1, novaVenda) \<Rightarrow>
          if status r = ''Concluida'' then
            (case baixar_estoque linhas d1 of
               Inl e \<Rightarrow> Inl e
             | Inr (d2, u) \<Rightarrow> Inr (d2, novaVenda))
          else Inr (d1, novaVenda))"

definition totalCalculado :: "venda_req \<Rightarrow> item_entrada list \<Rightarrow> rat" where
  "totalCalculado req linhas =
     (if \<not> truthy (q_total req) then
        foldl (\<lambda>sum item. sum + of_int (the (e_quantidade item)) * the (e_precoUnit item))
          0 linhas
      else the (q_total req))"

definition dados_venda :: "venda_req \<Rightarrow> item_entrada list \<Rightarrow> venda" where
  "dados_venda req linhas =
     \<lparr>clienteId = the (q_clienteId req),
      usuarioId = the (q_usuarioId req),
      data = q_data req,
      total = totalCalculado req linhas,
      status = (if truthy_str (q_status req) then the (q_status req) else ''Pendente''),
      observacoes = (if truthy_str (q_observacoes req) then q_observacoes req else None)\<rparr>"

definition create_venda :: "venda_req \<Rightarrow> db \<Rightarrow> db \<times> (erro + ident \<times> itemVenda list)" where
  "create_venda req d =
     (if \<not> truthy (q_clienteId req) \<or> \<not> truthy (q_usuarioId req) then (d, Inl DadosObrigatorios)
      else
        case q_itens req of
          None \<Rightarrow> (d, Inl SemItens)
        | Some linhas \<Rightarrow>
            if linhas = [] then (d, Inl SemItens)
            else
              (case validar_itens 0 linhas of
                 Some e \<Rightarrow> (d, Inl e)
               | None \<Rightarrow>
                   let errors = verificarExistenciaRegistros (the (q_clienteId req))
                                  (the (q_usuarioId req)) linhas d
                   in if errors \<noteq> [] then (d, Inl (ErroValidacao errors))
                      else transaction (via_tx (create_venda_tx (dados_venda req linhas) linhas))
                             d))"

definition updateStatus_tx :: "ident \<Rightarrow> string \<Rightarrow> db \<Rightarrow> erro + db \<times> venda" where
  "updateStatus_tx i st d =
     (case vendas d i of
        None \<Rightarrow> Inl VendaNaoEncontrada
      | Some vendaAtual \<Rightarrow>
          (case (if status vendaAtual \<noteq> st then
                   (if st = ''Concluida'' then ajustar_estoque (- 1) (itens_com_produto i d) d
                    else if status vendaAtual = ''Concluida'' \<and> st \<noteq> ''Concluida''
                      then ajustar_estoque 1 (itens_com_produto i d) d
                    else Inr (d, ()))
                 else Inr (d, ())) of
             Inl e \<Rightarrow> Inl e
           | Inr (d1, u) \<Rightarrow> venda_update i (\<lambda>r. r\<lparr>status := st\<rparr>) d1))"

definition updateStatus :: "ident option \<Rightarrow> string option \<Rightarrow> db \<Rightarrow> db \<times> (erro + venda)" where
  "updateStatus ido st d =
     (case ido of
        None \<Rightarrow> (d, Inl IdInvalido)
      | Some i \<Rightarrow>
          if \<not> truthy_str st \<or> the st \<notin> set status_validos then (d, Inl StatusInvalido)
          else transaction (via_tx (updateStatus_tx i (the st))) d)"

definition remove_venda_tx ::
  "ident \<Rightarrow> venda \<Rightarrow> (itemVenda \<times> string option) list \<Rightarrow> db \<Rightarrow> erro + db \<times> unit" where
  "remove_venda_tx i venda linhas d =
     (case (if status venda = ''Concluida'' then ajustar_estoque 1 linhas d else Inr (d, ())) of
        Inl e \<Rightarrow> Inl e
      | Inr (d1, u) \<Rightarrow> venda_delete i d1)"

definition remove_venda :: "ident option \<Rightarrow> db \<Rightarrow> db \<times> (erro + unit)" where
  "remove_venda ido d =
     (case ido of
        None \<Rightarrow> (d, Inl IdInvalido)
      | Some i \<Rightarrow>
         (case vendas d i of
            None \<Rightarrow> (d, Inl VendaNaoEncontrada)
          | Some venda \<Rightarrow>
              transaction (via_tx (remove_venda_tx i venda (itens_com_produto i d))) d))"

text \<open>
  The body of \<open>update\<close>: \<open>data\<close>, \<open>status\<close> and \<open>observacoes\<close> are taken out of
  the body, and \<open>rest\<close>, the other keys, goes to the row as it is; of these the model
  keeps the remaining columns of the table.
\<close>

record venda_upd =
  u_data :: "nat option"
  u_status :: "string option"
  u_observacoes :: "string option option"
  u_clienteId :: "ident option"
  u_usuarioId :: "ident option"
  u_total :: "rat option"

definition aplicar_venda_upd :: "venda_upd \<Rightarrow> venda \<Rightarrow> venda" where
  "aplicar_venda_upd u r =
     r\<lparr>clienteId := (case u_clienteId u of None \<Rightarrow> clienteId r | Some c \<Rightarrow> c),
       usuarioId := (case u_usuarioId u of None \<Rightarrow> usuarioId r | Some c \<Rightarrow> c),
       total := (case u_total u of None \<Rightarrow> total r | Some t \<Rightarrow> t),
       observacoes := (case u_observacoes u of None \<Rightarrow> observacoes r | Some ob \<Rightarrow> ob),
       data := (case u_data u of None \<Rightarrow> data r | Some t \<Rightarrow> t),
       status := (if truthy_str (u_status u) then the (u_status u) else status r)\<rparr>"

definition venda_update_dados :: "ident \<Rightarrow> venda_upd \<Rightarrow> db \<Rightarrow> erro + db \<times> venda" where
  "venda_update_dados i u d =
     (if (case u_clienteId u of None \<Rightarrow> False | Some c \<Rightarrow> c \<notin> clientes d) \<or>
         (case u_usuarioId u of None \<Rightarrow> False | Some c \<Rightarrow> c \<notin> usuarios d)
      then Inl (ErroPrisma P2003)
      else venda_update i (aplicar_venda_upd u) d)"

definition update_venda_tx ::
  "ident \<Rightarrow> venda_upd \<Rightarrow> venda \<Rightarrow> (itemVenda \<times> string option) list \<Rightarrow> db \<Rightarrow>
   erro + db \<times> venda" where
  "update_venda_tx i u vendaAtual linhas d =
     (case venda_update_dados i u d of
        Inl e \<Rightarrow> Inl e
      | Inr (d1, vendaAtualizada) \<Rightarrow>
          (case (if Some (status vendaAtual) \<noteq> u_status u then
                   (if u_status u = Some ''Concluida'' then ajustar_estoque (- 1) linhas d1
                    else if status vendaAtual = ''Concluida'' \<and> u_status u \<noteq> Some ''Concluida''
                      then ajustar_estoque 1 linhas d1
                    else Inr (d1, ()))
                 else Inr (d1, ())) of
             Inl e \<Rightarrow> Inl e
           | Inr (d2, w) \<Rightarrow> Inr (d2, vendaAtualizada)))"

definition update_venda :: "ident option \<Rightarrow> venda_upd \<Rightarrow> db \<Rightarrow> db \<times> (erro + venda)" where
  "update_venda ido u d =
     (case ido of
        None \<Rightarrow> (d, Inl IdInvalido)
      | Some i \<Rightarrow>
          if truthy_str (u_status u) \<and> the (u_status u) \<notin> set status_validos
          then (d, Inl StatusInvalido)
          else
            (case vendas d i of
               None \<Rightarrow> (d, Inl VendaNaoEncontrada)
             | Some vendaAtual \<Rightarrow>
                 transaction
                   (via_tx (update_venda_tx i u vendaAtual (itens_com_produto i d))) d))"

subsection \<open>The callbacks of create and remove, statement by statement\<close>

text \<open>
  What a statement does is not only a matter of the rows it finds: the database may
  abort any statement of an open transaction for a reason that the store does not
  show (a write conflict or a deadlock with work that is not modelled here), and the
  call then throws \<open>P2034\<close> and writes nothing. \<open>falha k\<close> tells whether the
  database aborts the statement numbered \<open>k\<close> of a callback. \<open>tx_stmt\<close> is one
  awaited call on \<open>tx\<close>: unless it is aborted, it runs on the transaction's view and
  leaves its write pending. \<open>create_venda_falhas\<close> and \<open>remove_venda_falhas\<close> are
  the handlers \<open>create\<close> and \<open>remove\<close> with their callbacks given in this way.
\<close>

type_synonym falhas = "nat \<Rightarrow> bool"

definition tx_stmt ::
  "falhas \<Rightarrow> nat \<Rightarrow> (db \<Rightarrow> erro + db \<times> 'a) \<Rightarrow> tx_ctx \<Rightarrow> tx_ctx \<times> (erro + 'a)" where
  "tx_stmt falha k op c = (if falha k then (c, Inl (ErroPrisma P2034)) else via_tx op c)"

definition produto_findUnique :: "ident \<Rightarrow> db \<Rightarrow> erro + db \<times> produto option" where
  "produto_findUnique p d = Inr (d, produtos d p)"

text \<open>
  The callback of \<open>create\<close>. Statement \<open>0\<close> is \<^verbatim>\<open>tx.venda.create\<close>, one nested
  write of the sale row and its line rows. For a sale created as \<open>Concluida\<close> the
  loop then issues, for the line at position \<open>n\<close> of the request, statement
  \<open>2n + 1\<close>, \<^verbatim>\<open>tx.produto.findUnique\<close>, and, when the product is of type
  \<open>Produto\<close> with a stock, statement \<open>2n + 2\<close>, \<^verbatim>\<open>tx.produto.update\<close>.
\<close>

fun baixar_estoque_tx ::
  "falhas \<Rightarrow> nat \<Rightarrow> item_entrada list \<Rightarrow> tx_ctx \<Rightarrow> tx_ctx \<times> (erro + unit)" where
  "baixar_estoque_tx falha k [] c = (c, Inr ())"
| "baixar_estoque_tx falha k (item # resto) c =
     (case tx_stmt falha k (produto_findUnique (the (e_produtoId item))) c of
        (c1, Inl e) \<Rightarrow> (c1, Inl e)
      | (c1, Inr None) \<Rightarrow> baixar_estoque_tx falha (k + 2) resto c1
      | (c1, Inr (Some produto)) \<Rightarrow>
          if tipo produto = ''Produto'' \<and> estoque produto \<noteq> None then
            (case tx_stmt falha (k + 1)
                    (produto_update_estoque (the (e_produtoId item))
                       (- the (e_quantidade item))) c1 of
               (c2, Inl e) \<Rightarrow> (c2, Inl e)
             | (c2, Inr u) \<Rightarrow> baixar_estoque_tx falha (k + 2) resto c2)
          else baixar_estoque_tx falha (k + 2) resto c1)"

definition create_venda_callback ::
  "falhas \<Rightarrow> venda \<Rightarrow> item_entrada list \<Rightarrow> tx_ctx \<Rightarrow>
   tx_ctx \<times> (erro + ident \<times> itemVenda list)" where
  "create_venda_callback falha r linhas =
     tx_bind
       (tx_stmt falha 0
          (venda_create r
             (map (\<lambda>item. (the (e_produtoId item), the (e_quantidade item),
                            the (e_precoUnit item))) linhas)))
       (\<lambda>novaVenda.
          if status r = ''Concluida'' then
            tx_bind (baixar_estoque_tx falha 1 linhas) (\<lambda>u. tx_return novaVenda)
          else tx_return novaVenda)"

definition create_venda_falhas ::
  "falhas \<Rightarrow> venda_req \<Rightarrow> db \<Rightarrow> db \<times> (erro + ident \<times> itemVenda list)" where
  "create_venda_falhas falha req d =
     (if \<not> truthy (q_clienteId req) \<or> \<not> truthy (q_usuarioId req) then (d, Inl DadosObrigatorios)
      else
        case q_itens req of
          None \<Rightarrow> (d, Inl SemItens)
        | Some linhas \<Rightarrow>
            if linhas = [] then (d, Inl SemItens)
            else
              (case validar_itens 0 linhas of
                 Some e \<Rightarrow> (d, Inl e)
               | None \<Rightarrow>
                   let errors = verificarExistenciaRegistros (the (q_clienteId req))
                                  (the (q_usuarioId req)) linhas d
                   in if errors \<noteq> [] then (d, Inl (ErroValidacao errors))
                      else transaction
                             (create_venda_callback falha (dados_venda req linhas) linhas) d))"

text \<open>
  The callback of \<open>remove\<close>, over the lines read with the sale before the
  transaction was opened. The line at position \<open>n\<close> has statement \<open>n\<close> for its
  \<^verbatim>\<open>tx.produto.update\<close>, and \<^verbatim>\<open>tx.venda.delete\<close> comes after the loop.
\<close>

fun ajustar_estoque_tx ::
  "falhas \<Rightarrow> nat \<Rightarrow> int \<Rightarrow> (itemVenda \<times> string option) list \<Rightarrow> tx_ctx \<Rightarrow>
   tx_ctx \<times> (erro + unit)" where
  "ajustar_estoque_tx falha k sinal [] c = (c, Inr ())"
| "ajustar_estoque_tx falha k sinal ((item, tp) # resto) c =
     (case tp of
        None \<Rightarrow> (c, Inl ErroTipo)
      | Some t \<Rightarrow>
          if t = ''Produto'' then
            (case tx_stmt falha k
                    (produto_update_estoque (produtoId item) (sinal * quantidade item)) c of
               (c1, Inl e) \<Rightarrow> (c1, Inl e)
             | (c1, Inr u) \<Rightarrow> ajustar_estoque_tx falha (k + 1) sinal resto c1)
          else ajustar_estoque_tx falha (k + 1) sinal resto c)"

definition remove_venda_callback ::
  "falhas \<Rightarrow> ident \<Rightarrow> venda \<Rightarrow> (itemVenda \<times> string option) list \<Rightarrow> tx_ctx \<Rightarrow>
   tx_ctx \<times> (erro + unit)" where
  "remove_venda_callback falha i venda linhas =
     tx_bind
       (if status venda = ''Concluida'' then ajustar_estoque_tx falha 0 1 linhas
        else tx_return ())
       (\<lambda>u. tx_stmt falha (length linhas) (venda_delete i))"

definition remove_venda_falhas :: "falhas \<Rightarrow> ident option \<Rightarrow> db \<Rightarrow> db \<times> (erro + unit)" where
  "remove_venda_falhas falha ido d =
     (case ido of
        None \<Rightarrow> (d, Inl IdInvalido)
      | Some i \<Rightarrow>
         (case vendas d i of
            None \<Rightarrow> (d, Inl VendaNaoEncontrada)
          | Some venda \<Rightarrow>
              transaction (remove_venda_callback falha i venda (itens_com_produto i d)) d))"

section \<open>Notions used to state the properties\<close>

text \<open>The sum of quantity times unit price over the lines a sale has in a store.\<close>

definition soma_itens :: "ident \<Rightarrow> db \<Rightarrow> rat" where
  "soma_itens v d =
     sum_list (map (\<lambda>it. of_int (quantidade it) * precoUnit it) (itemVenda_findMany v d))"


text \<open>The quantity of product \<open>p\<close> that the lines of sale \<open>v\<close> hold.\<close>

definition qtd_vendida :: "ident \<Rightarrow> ident \<Rightarrow> db \<Rightarrow> int" where
  "qtd_vendida v p d =
     sum_list (map quantidade (filter (\<lambda>it. produtoId it = p) (itemVenda_findMany v d)))"

text \<open>The quantity of product \<open>p\<close> that the lines of a request ask for.\<close>

definition qtd_pedida :: "ident \<Rightarrow> item_entrada list \<Rightarrow> int" where
  "qtd_pedida p linhas =
     sum_list (map (\<lambda>item. the (e_quantidade item))
                 (filter (\<lambda>item. the (e_produtoId item) = p) linhas))"

text \<open>
  The stock of every product of type \<open>Produto\<close> moved by \<open>delta p\<close>; a null stock
  stays null, and products of another type are left as they are.
\<close>

definition mover_estoque :: "(ident \<Rightarrow> int) \<Rightarrow> (ident \<rightharpoonup> produto) \<Rightarrow> (ident \<rightharpoonup> produto)" where
  "mover_estoque delta ps =
     (\<lambda>p. case ps p of
             None \<Rightarrow> None
           | Some r \<Rightarrow>
               if tipo r = ''Produto''
               then Some (r\<lparr>estoque := map_option (\<lambda>s. s + delta p) (estoque r)\<rparr>)
               else Some r)"

text \<open>The foreign key from sale lines to products.\<close>

definition itens_tem_produto :: "db \<Rightarrow> bool" where
  "itens_tem_produto d = list_all (\<lambda>it. produtos d (produtoId it) \<noteq> None) (itens d)"

text \<open>The error of the modifiability guard for a completed or cancelled sale.\<close>

definition erro_nao_modificavel :: "string \<Rightarrow> erro" where
  "erro_nao_modificavel s = (if s = ''Concluida'' then VendaConcluida else VendaCancelada)"

text \<open>Two stores that differ at most in their products.\<close>

definition mesmo_resto :: "db \<Rightarrow> db \<Rightarrow> bool" where
  "mesmo_resto d d' \<longleftrightarrow>
     clientes d' = clientes d \<and> usuarios d' = usuarios d \<and> vendas d' = vendas d \<and>
     itens d' = itens d \<and> prox_venda_id d' = prox_venda_id d \<and>
     prox_item_id d' = prox_item_id d"

text \<open>
  The quantity of product \<open>p\<close> over lines read with their product types, and the
  condition that each such line has its product in the store, with that type.
\<close>

definition qtd_linhas :: "ident \<Rightarrow> (itemVenda \<times> string option) list \<Rightarrow> int" where
  "qtd_linhas p linhas =
     sum_list (map (\<lambda>(it, tp). quantidade it) (filter (\<lambda>(it, tp). produtoId it = p) linhas))"

definition linhas_coerentes :: "(itemVenda \<times> string option) list \<Rightarrow> db \<Rightarrow> bool" where
  "linhas_coerentes linhas d =
     list_all (\<lambda>(it, tp). produtos d (produtoId it) \<noteq> None \<and>
                            tp = map_option tipo (produtos d (produtoId it))) linhas"

text \<open>
  The sign of the stock movement of a status change, as a function of the old and
  the new status: \<open>-1\<close> into \<open>Concluida\<close>, \<open>1\<close> out of it, \<open>0\<close> otherwise.
\<close>

definition delta_status :: "string \<Rightarrow> string \<Rightarrow> int" where
  "delta_status antigo novo =
     (if antigo = novo then 0
      else if novo = ''Concluida'' then - 1
      else if antigo = ''Concluida'' then 1
      else 0)"

subsection \<open>A small store\<close>

text \<open>
  One stocked product and one service; a pending sale with two lines and a completed
  sale with one.
\<close>

definition db_exemplo :: db where
  "db_exemplo =
     \<lparr>clientes = {1}, usuarios = {1},
      produtos = [1 \<mapsto> \<lparr>preco = 10, estoque = Some 10, tipo = ''Produto'',
                          produto_status = ''Ativo''\<rparr>,
                  2 \<mapsto> \<lparr>preco = 50, estoque = None, tipo = ''Servico'',
                          produto_status = ''Ativo''\<rparr>],
      vendas = [1 \<mapsto> \<lparr>clienteId = 1, usuarioId = 1, data = 0, total = 25,
                        status = ''Pendente'', observacoes = None\<rparr>,
                2 \<mapsto> \<lparr>clienteId = 1, usuarioId = 1, data = 0, total = 30,
                        status = ''Concluida'', observacoes = None\<rparr>],
      itens = [\<lparr>item_id = 1, vendaId = 1, produtoId = 1, quantidade = 2, precoUnit = 10\<rparr>,
               \<lparr>item_id = 2, vendaId = 1, produtoId = 1, quantidade = 1, precoUnit = 5\<rparr>,
               \<lparr>item_id = 3, vendaId = 2, produtoId = 1, quantidade = 3, precoUnit = 10\<rparr>],
      prox_venda_id = 3, prox_item_id = 4\<rparr>"

definition req_exemplo :: venda_req where
  "req_exemplo =
     \<lparr>q_clienteId = Some 1, q_usuarioId = Some 1, q_data = 0,
      q_status = Some ''Concluida'',
      q_itens = Some [\<lparr>e_produtoId = Some 1, e_quantidade = Some 2, e_precoUnit = Some 10\<rparr>,
                      \<lparr>e_produtoId = Some 2, e_quantidade = Some 1, e_precoUnit = Some 50\<rparr>],
      q_total = None, q_observacoes = None\<rparr>"

text \<open>The same store with two units of product 1 in stock.\<close>

definition db_pouco_estoque :: db where
  "db_pouco_estoque =
     db_exemplo\<lparr>produtos := (produtos db_exemplo)
        (1 \<mapsto> \<lparr>preco = 10, estoque = Some 2, tipo = ''Produto'', produto_status = ''Ativo''\<rparr>)\<rparr>"

text \<open>
  The same store with a further line of the completed sale 2 whose product is not in
  the store.
\<close>

definition db_orfao :: db where
  "db_orfao =
     db_exemplo\<lparr>itens := itens db_exemplo @
        [\<lparr>item_id = 4, vendaId = 2, produtoId = 9, quantidade = 1, precoUnit = 1\<rparr>],
        prox_item_id := 5\<rparr>"

section \<open>Auxiliary facts\<close>

subsection \<open>Transactions\<close>

text \<open>A callback that works through \<open>tx\<close> alone commits all of its writes or none.\<close>

lemma transaction_via_tx:
  "transaction (via_tx op) d = (case op d of Inl e \<Rightarrow> (d, Inl e) | Inr (d', a) \<Rightarrow> (d', Inr a))"
  by (simp add: transaction_def via_tx_def tx_view_def efeito_def split: sum.splits prod.splits)

text \<open>
  A callback that writes through \<open>tx\<close> and then calls the module-level client: the
  second statement runs on the store as it was committed before the first.
\<close>

lemma transaction_tx_prisma:
  "transaction (tx_bind (via_tx op1) (\<lambda>a. tx_bind (via_prisma (op2 a)) (\<lambda>t. tx_return (f a)))) d =
     (case op1 d of
        Inl e \<Rightarrow> (d, Inl e)
      | Inr (d1, a) \<Rightarrow>
         (case op2 a d of
            Inl e \<Rightarrow> (d, Inl e)
          | Inr (d2, t) \<Rightarrow> (efeito op1 d2, Inr (f a))))"
  by (simp add: transaction_def via_tx_def via_prisma_def tx_bind_def tx_return_def tx_view_def
      split: sum.splits prod.splits)

subsection \<open>What the stock loops leave alone\<close>

lemma mesmo_resto_refl: "mesmo_resto d d"
  by (simp add: mesmo_resto_def)

lemma mesmo_resto_trans: "mesmo_resto d d1 \<Longrightarrow> mesmo_resto d1 d2 \<Longrightarrow> mesmo_resto d d2"
  by (simp add: mesmo_resto_def)

lemma produto_update_estoque_resto:
  "produto_update_estoque p k d = Inr (d', u) \<Longrightarrow> mesmo_resto d d'"
  by (auto simp: produto_update_estoque_def mesmo_resto_def split: option.splits)

lemma baixar_estoque_resto:
  "baixar_estoque linhas d = Inr (d', u) \<Longrightarrow> mesmo_resto d d'"
proof (induction linhas arbitrary: d)
  case Nil
  then show ?case by (simp add: mesmo_resto_refl)
next
  case (Cons item resto)
  show ?case
  proof (cases "produtos d (the (e_produtoId item))")
    case None
    with Cons show ?thesis by simp
  next
    case (Some produto)
    show ?thesis
    proof (cases "tipo produto = ''Produto'' \<and> estoque produto \<noteq> None")
      case False
      with Cons Some show ?thesis by auto
    next
      case True
      with Cons.prems Some obtain d1 u1 where
        a: "produto_update_estoque (the (e_produtoId item)) (- the (e_quantidade item)) d
              = Inr (d1, u1)"
        and b: "baixar_estoque resto d1 = Inr (d', u)"
        by (auto split: sum.splits)
      from produto_update_estoque_resto [OF a] Cons.IH [OF b] show ?thesis
        by (rule mesmo_resto_trans)
    qed
  qed
qed

lemma ajustar_estoque_resto:
  "ajustar_estoque sinal linhas d = Inr (d', u) \<Longrightarrow> mesmo_resto d d'"
proof (induction sinal linhas d rule: ajustar_estoque.induct)
  case (1 sinal d)
  then show ?case by (simp add: mesmo_resto_refl)
next
  case (2 sinal item tp resto d)
  from "2.prems" obtain t where tp: "tp = Some t" by (cases tp) auto
  show ?case
  proof (cases "t = ''Produto''")
    case False
    with 2 tp show ?thesis by simp
  next
    case True
    with "2.prems" tp obtain d1 u1 where
      a: "produto_update_estoque (produtoId item) (sinal * quantidade item) d = Inr (d1, u1)"
      and b: "ajustar_estoque sinal resto d1 = Inr (d', u)"
      by (auto split: sum.splits)
    from "2.IH"(1) [OF tp True a refl b] produto_update_estoque_resto [OF a]
    show ?thesis by (blast intro: mesmo_resto_trans)
  qed
qed

subsection \<open>Creating a sale\<close>

lemma validar_itens_None:
  "validar_itens k linhas = None \<Longrightarrow>
   list_all (\<lambda>item. truthy (e_produtoId item) \<and> truthy (e_quantidade item) \<and>
                     0 < the (e_quantidade item) \<and> truthy (e_precoUnit item) \<and>
                     0 \<le> the (e_precoUnit item)) linhas"
  by (induction linhas arbitrary: k) (auto split: if_splits)


lemma create_venda_sucesso:
  "create_venda req d = (d', Inr a) \<Longrightarrow>
     \<exists>linhas. q_itens req = Some linhas \<and> linhas \<noteq> [] \<and> validar_itens 0 linhas = None \<and>
        truthy (q_clienteId req) \<and> truthy (q_usuarioId req) \<and>
        verificarExistenciaRegistros (the (q_clienteId req)) (the (q_usuarioId req)) linhas d
          = [] \<and>
        create_venda_tx (dados_venda req linhas) linhas d = Inr (d', a)"
  unfolding create_venda_def transaction_via_tx Let_def
  by (simp split: if_splits option.splits sum.splits prod.splits)


lemma create_venda_tx_Inr:
  "create_venda_tx r linhas d = Inr (d', a) \<Longrightarrow>
     \<exists>d1. venda_create r (map (\<lambda>item. (the (e_produtoId item), the (e_quantidade item),
                            the (e_precoUnit item))) linhas) d = Inr (d1, a) \<and>
          mesmo_resto d1 d' \<and>
          (if status r = ''Concluida'' then (\<exists>u. baixar_estoque linhas d1 = Inr (d', u))
           else d' = d1)"
  unfolding create_venda_tx_def
  by (auto split: sum.splits if_splits simp: mesmo_resto_refl dest: baixar_estoque_resto)

subsection \<open>Adding a line\<close>

lemma create_item_sucesso:
  "create_item req d = (d', Inr it) \<Longrightarrow>
     \<exists>produto qn d1 d2 t.
        validarItemVenda req False = [] \<and>
        verificarDisponibilidadeProduto (r_produtoId req) (r_quantidade req) None d
           = Inr (produto, qn) \<and>
        itemVenda_create (the (r_vendaId req)) (the (r_produtoId req)) (r_quantidade req)
           (if truthy (r_precoUnit req) then the (r_precoUnit req) else preco produto) d
           = Inr (d1, it) \<and>
        atualizarTotalVenda (the (r_vendaId req)) d = Inr (d2, t)"
  unfolding create_item_def transaction_tx_prisma Let_def
  by (simp split: if_splits sum.splits prod.splits)

lemma verificarDisponibilidadeProduto_Inr:
  "verificarDisponibilidadeProduto pid q i d = Inr (produto, qn) \<Longrightarrow>
     \<exists>p. pid = Some p \<and> produtos d p = Some produto \<and> produto_status produto = ''Ativo''"
  unfolding verificarDisponibilidadeProduto_def Let_def
  by (simp split: option.splits if_splits)

lemma itemVenda_create_Inr:
  "itemVenda_create v p q pu d = Inr (d1, it) \<Longrightarrow>
     \<exists>n. q = Some n \<and> it = \<lparr>item_id = prox_item_id d, vendaId = v, produtoId = p,
                             quantidade = n, precoUnit = pu\<rparr>"
  unfolding itemVenda_create_def Let_def
  by (auto split: option.splits if_splits)

lemma create_venda_linha_sem_preco:
  assumes "q_itens req = Some linhas" and "item \<in> set linhas" and "e_precoUnit item = None"
  shows "\<exists>e. create_venda req d = (d, Inl e)"
proof -
  have "validar_itens 0 linhas \<noteq> None"
  proof
    assume "validar_itens 0 linhas = None"
    from validar_itens_None [OF this] assms(2) have "truthy (e_precoUnit item)"
      by (auto simp: list_all_iff)
    with assms(3) show False by (simp add: truthy_def)
  qed
  then obtain e where "validar_itens 0 linhas = Some e" by auto
  with assms(1) show ?thesis
    unfolding create_venda_def by (auto simp: Let_def)
qed

lemma verificarVendaModificavel_bloqueada:
  "vendas d v = Some r \<Longrightarrow> status r = ''Concluida'' \<or> status r = ''Cancelada'' \<Longrightarrow>
   verificarVendaModificavel (Some v) d = Inl (erro_nao_modificavel (status r))"
  by (auto simp: verificarVendaModificavel_def erro_nao_modificavel_def)

subsection \<open>The stock loops\<close>

lemma mover_estoque_cong:
  "(\<And>p r. ps p = Some r \<Longrightarrow> tipo r = ''Produto'' \<Longrightarrow> f p = g p) \<Longrightarrow>
   mover_estoque f ps = mover_estoque g ps"
  by (auto simp: mover_estoque_def fun_eq_iff split: option.splits)

lemma mover_estoque_zero: "mover_estoque (\<lambda>p. 0) ps = ps"
  by (auto simp: mover_estoque_def fun_eq_iff option.map_ident split: option.splits)

lemma produto_update_estoque_Inr:
  "produtos d p = Some r \<Longrightarrow>
   produto_update_estoque p k d =
     Inr (d\<lparr>produtos := (produtos d)(p \<mapsto> r\<lparr>estoque := map_option (\<lambda>s. s + k) (estoque r)\<rparr>)\<rparr>, ())"
  by (simp add: produto_update_estoque_def)

lemma linhas_coerentes_update:
  assumes "linhas_coerentes linhas d" and "produtos d p = Some r"
  shows "linhas_coerentes linhas (d\<lparr>produtos := (produtos d)(p \<mapsto> r\<lparr>estoque := e\<rparr>)\<rparr>)"
  using assms by (induction linhas) (auto simp: linhas_coerentes_def)

lemma mover_estoque_passo:
  assumes "ps p0 = Some r" and "tipo r = ''Produto''"
  shows "mover_estoque (\<lambda>p. k * f p) (ps(p0 \<mapsto> r\<lparr>estoque := map_option (\<lambda>s. s + k * q) (estoque r)\<rparr>))
       = mover_estoque (\<lambda>p. k * ((if p0 = p then q else 0) + f p)) ps"
  using assms
  by (auto simp: mover_estoque_def fun_eq_iff option.map_comp comp_def algebra_simps
      split: option.splits)

lemma ajustar_estoque_produtos:
  "linhas_coerentes linhas d \<Longrightarrow>
   \<exists>d'. ajustar_estoque sinal linhas d = Inr (d', ()) \<and>
        produtos d' = mover_estoque (\<lambda>p. sinal * qtd_linhas p linhas) (produtos d)"
proof (induction linhas arbitrary: d)
  case Nil
  then show ?case by (simp add: qtd_linhas_def mover_estoque_zero)
next
  case (Cons x resto)
  obtain it tp where x: "x = (it, tp)" by (cases x)
  from Cons.prems x obtain r where
    r: "produtos d (produtoId it) = Some r" and tp: "tp = Some (tipo r)"
    and co: "linhas_coerentes resto d"
    by (cases "produtos d (produtoId it)") (auto simp: linhas_coerentes_def)
  have q: "\<And>p. qtd_linhas p (x # resto) = (if produtoId it = p then quantidade it else 0) + qtd_linhas p resto"
    by (simp add: qtd_linhas_def x)
  show ?case
  proof (cases "tipo r = ''Produto''")
    case False
    from Cons.IH [OF co] obtain d' where
      a: "ajustar_estoque sinal resto d = Inr (d', ())"
      and b: "produtos d' = mover_estoque (\<lambda>p. sinal * qtd_linhas p resto) (produtos d)"
      by blast
    have "mover_estoque (\<lambda>p. sinal * qtd_linhas p resto) (produtos d)
        = mover_estoque (\<lambda>p. sinal * qtd_linhas p (x # resto)) (produtos d)"
      using False r by (intro mover_estoque_cong) (auto simp: q)
    with a b False tp x show ?thesis by simp
  next
    case True
    let ?d1 = "d\<lparr>produtos := (produtos d)(produtoId it \<mapsto>
                 r\<lparr>estoque := map_option (\<lambda>s. s + sinal * quantidade it) (estoque r)\<rparr>)\<rparr>"
    from linhas_coerentes_update [OF co r] have "linhas_coerentes resto ?d1" .
    from Cons.IH [OF this] obtain d' where
      a: "ajustar_estoque sinal resto ?d1 = Inr (d', ())"
      and b: "produtos d' = mover_estoque (\<lambda>p. sinal * qtd_linhas p resto) (produtos ?d1)"
      by blast
    from b mover_estoque_passo [where ps = "produtos d" and ?p0.0 = "produtoId it" and r = r
        and k = sinal and f = "\<lambda>p. qtd_linhas p resto" and q = "quantidade it", OF r True]
    have "produtos d' = mover_estoque (\<lambda>p. sinal * qtd_linhas p (x # resto)) (produtos d)"
      by (simp add: q)
    with a True tp x r show ?thesis
      by (simp add: produto_update_estoque_Inr)
  qed
qed

lemma itens_com_produto_coerentes:
  "itens_tem_produto d \<Longrightarrow> linhas_coerentes (itens_com_produto v d) d"
  by (auto simp: itens_tem_produto_def linhas_coerentes_def itens_com_produto_def
      itemVenda_findMany_def list_all_iff split: option.splits)

lemma qtd_linhas_itens_com_produto:
  "qtd_linhas p (itens_com_produto v d) = qtd_vendida v p d"
  by (simp add: qtd_linhas_def qtd_vendida_def itens_com_produto_def filter_map comp_def)

subsection \<open>Status changes\<close>

lemma mesmo_resto_eq: "mesmo_resto d d' \<Longrightarrow> produtos d' = ps \<Longrightarrow> d' = d\<lparr>produtos := ps\<rparr>"
  by (cases d, cases d') (simp add: mesmo_resto_def)

lemma linhas_coerentes_produtos:
  "produtos d1 = produtos d \<Longrightarrow> linhas_coerentes linhas d1 = linhas_coerentes linhas d"
  by (simp add: linhas_coerentes_def)

lemma ajustar_estoque_venda:
  assumes "itens_tem_produto d" and "produtos d1 = produtos d"
  shows "ajustar_estoque k (itens_com_produto i d) d1 =
           Inr (d1\<lparr>produtos := mover_estoque (\<lambda>p. k * qtd_vendida i p d) (produtos d)\<rparr>, ())"
proof -
  from itens_com_produto_coerentes [OF assms(1)]
  have "linhas_coerentes (itens_com_produto i d) d1"
    by (simp only: linhas_coerentes_produtos [OF assms(2)])
  from ajustar_estoque_produtos [OF this, of k] obtain d' where
    a: "ajustar_estoque k (itens_com_produto i d) d1 = Inr (d', ())"
    and b: "produtos d' = mover_estoque (\<lambda>p. k * qtd_linhas p (itens_com_produto i d)) (produtos d1)"
    by blast
  from b assms(2)
  have "produtos d' = mover_estoque (\<lambda>p. k * qtd_vendida i p d) (produtos d)"
    by (simp add: qtd_linhas_itens_com_produto)
  from mesmo_resto_eq [OF ajustar_estoque_resto [OF a] this]
  have "d' = d1\<lparr>produtos := mover_estoque (\<lambda>p. k * qtd_vendida i p d) (produtos d)\<rparr>" .
  with a show ?thesis by simp
qed

lemma updateStatus_tx_existente:
  assumes v: "vendas d i = Some r"
    and fk: "delta_status (status r) st \<noteq> 0 \<longrightarrow> itens_tem_produto d"
  shows "updateStatus_tx i st d =
           Inr (d\<lparr>produtos := mover_estoque (\<lambda>p. delta_status (status r) st * qtd_vendida i p d)
                              (produtos d),
              vendas := (vendas d)(i \<mapsto> r\<lparr>status := st\<rparr>)\<rparr>, r\<lparr>status := st\<rparr>)"
proof (cases "delta_status (status r) st = 0")
  case True
  then have "\<not> (status r \<noteq> st \<and> (st = ''Concluida'' \<or> status r = ''Concluida''))"
    by (auto simp: delta_status_def split: if_splits)
  with v True show ?thesis
    by (auto simp: updateStatus_tx_def venda_update_def mover_estoque_zero)
next
  case False
  with fk have f: "itens_tem_produto d" by simp
  from False have ne: "status r \<noteq> st" by (auto simp: delta_status_def)
  note aj = ajustar_estoque_venda [OF f refl, of _ i]
  show ?thesis
  proof (cases "st = ''Concluida''")
    case True
    with ne v show ?thesis
      by (simp add: updateStatus_tx_def aj venda_update_def delta_status_def)
  next
    case n: False
    with ne False have "status r = ''Concluida''"
      by (auto simp: delta_status_def split: if_splits)
    with n ne v show ?thesis
      by (simp add: updateStatus_tx_def aj venda_update_def delta_status_def)
  qed
qed

lemma updateStatus_existente:
  assumes v: "vendas d i = Some r" and st: "st \<in> set status_validos"
    and fk: "delta_status (status r) st \<noteq> 0 \<longrightarrow> itens_tem_produto d"
  shows "updateStatus (Some i) (Some st) d =
           (d\<lparr>produtos := mover_estoque (\<lambda>p. delta_status (status r) st * qtd_vendida i p d)
                              (produtos d),
              vendas := (vendas d)(i \<mapsto> r\<lparr>status := st\<rparr>)\<rparr>,
            Inr (r\<lparr>status := st\<rparr>))"
proof -
  from st have ne: "truthy_str (Some st)"
    by (auto simp: status_validos_def truthy_str_def)
  from st ne show ?thesis
    by (simp add: updateStatus_def transaction_via_tx updateStatus_tx_existente [OF v fk])
qed


lemma exemplo_fk: "itens_tem_produto db_exemplo"
  by (simp add: itens_tem_produto_def db_exemplo_def)

subsection \<open>Completing a sale\<close>

lemma produto_update_estoque_Inl:
  "produto_update_estoque p k d = Inl e \<Longrightarrow> e = ErroPrisma P2025"
  by (simp add: produto_update_estoque_def split: option.splits)

lemma ajustar_estoque_Inl:
  "ajustar_estoque k linhas d = Inl e \<Longrightarrow> e = ErroTipo \<or> e = ErroPrisma P2025"
proof (induction k linhas d rule: ajustar_estoque.induct)
  case (1 sinal d)
  then show ?case by simp
next
  case (2 sinal item tp resto d)
  show ?case
  proof (cases tp)
    case None
    with "2.prems" show ?thesis by simp
  next
    case (Some t)
    show ?thesis
    proof (cases "t = ''Produto''")
      case False
      with 2 Some show ?thesis by simp
    next
      case True
      show ?thesis
      proof (cases "produto_update_estoque (produtoId item) (sinal * quantidade item) d")
        case (Inl e')
        with "2.prems" Some True have "e = e'" by simp
        with produto_update_estoque_Inl [OF Inl] show ?thesis by simp
      next
        case (Inr x)
        obtain d1 u where x: "x = (d1, u)" by (cases x)
        with "2.prems" Some True Inr have "ajustar_estoque sinal resto d1 = Inl e" by simp
        from "2.IH"(1) [OF Some True Inr [unfolded x] refl this] show ?thesis .
      qed
    qed
  qed
qed

lemma updateStatus_tx_Inl:
  "updateStatus_tx i st d = Inl e \<Longrightarrow>
     e = VendaNaoEncontrada \<or> e = ErroTipo \<or> e = ErroPrisma P2025"
  unfolding updateStatus_tx_def venda_update_def
  by (auto split: option.splits sum.splits if_splits prod.splits dest: ajustar_estoque_Inl)

lemma updateStatus_Inl:
  "updateStatus ido st d = (d', Inl e) \<Longrightarrow>
     e = IdInvalido \<or> e = StatusInvalido \<or> e = VendaNaoEncontrada \<or> e = ErroTipo \<or>
     e = ErroPrisma P2025"
  unfolding updateStatus_def transaction_via_tx
  by (auto split: option.splits sum.splits if_splits prod.splits dest: updateStatus_tx_Inl)

lemma update_venda_tx_Inl:
  "update_venda_tx i u r linhas d = Inl e \<Longrightarrow>
     e = ErroTipo \<or> e = ErroPrisma P2025 \<or> e = ErroPrisma P2003"
  unfolding update_venda_tx_def venda_update_dados_def venda_update_def
  by (auto split: option.splits sum.splits if_splits prod.splits dest: ajustar_estoque_Inl)

lemma update_venda_Inl:
  "update_venda ido u d = (d', Inl e) \<Longrightarrow>
     e = IdInvalido \<or> e = StatusInvalido \<or> e = VendaNaoEncontrada \<or> e = ErroTipo \<or>
     e = ErroPrisma P2025 \<or> e = ErroPrisma P2003"
  unfolding update_venda_def transaction_via_tx
  by (auto split: option.splits sum.splits if_splits prod.splits dest: update_venda_tx_Inl)

lemma update_venda_concluir:
  assumes v: "vendas d i = Some r" and s: "status r \<noteq> ''Concluida''"
    and fk: "itens_tem_produto d"
    and u: "u_status u = Some ''Concluida''" "u_clienteId u = None" "u_usuarioId u = None"
  shows "update_venda (Some i) u d =
           (d\<lparr>produtos := mover_estoque (\<lambda>p. - qtd_vendida i p d) (produtos d),
              vendas := (vendas d)(i \<mapsto> aplicar_venda_upd u r)\<rparr>,
            Inr (aplicar_venda_upd u r))"
proof -
  let ?d1 = "d\<lparr>vendas := (vendas d)(i \<mapsto> aplicar_venda_upd u r)\<rparr>"
  have a: "venda_update_dados i u d = Inr (?d1, aplicar_venda_upd u r)"
    using v u by (simp add: venda_update_dados_def venda_update_def)
  have "produtos ?d1 = produtos d" by simp
  from ajustar_estoque_venda [OF fk this, of "- 1" i]
  have b: "ajustar_estoque (- 1) (itens_com_produto i d) ?d1 =
             Inr (?d1\<lparr>produtos := mover_estoque (\<lambda>p. - qtd_vendida i p d) (produtos d)\<rparr>, ())"
    by simp
  have "update_venda_tx i u r (itens_com_produto i d) d =
          Inr (?d1\<lparr>produtos := mover_estoque (\<lambda>p. - qtd_vendida i p d) (produtos d)\<rparr>,
               aplicar_venda_upd u r)"
    using s u(1) by (simp add: update_venda_tx_def a b)
  with v u(1) show ?thesis
    by (simp add: update_venda_def transaction_via_tx truthy_str_def status_validos_def)
qed

lemma pouco_estoque_fk: "itens_tem_produto db_pouco_estoque"
  by (simp add: itens_tem_produto_def db_pouco_estoque_def db_exemplo_def)

subsection \<open>Deleting a sale\<close>

lemma remove_venda_concluida:
  assumes "vendas d i = Some r" and "status r = ''Concluida''" and "itens_tem_produto d"
  shows "remove_venda (Some i) d =
           (d\<lparr>produtos := mover_estoque (\<lambda>p. qtd_vendida i p d) (produtos d),
              vendas := (vendas d)(i := None),
              itens := filter (\<lambda>it. vendaId it \<noteq> i) (itens d)\<rparr>, Inr ())"
  using ajustar_estoque_venda [OF assms(3) refl, of 1 i] assms(1,2)
  by (simp add: remove_venda_def transaction_via_tx remove_venda_tx_def venda_delete_def)

lemma remove_venda_outro_status:
  assumes "vendas d i = Some r" and "status r \<noteq> ''Concluida''"
  shows "remove_venda (Some i) d =
           (d\<lparr>vendas := (vendas d)(i := None),
              itens := filter (\<lambda>it. vendaId it \<noteq> i) (itens d)\<rparr>, Inr ())"
  using assms
  by (simp add: remove_venda_def transaction_via_tx remove_venda_tx_def venda_delete_def)


subsection \<open>The stock loop of a created sale\<close>

lemma mover_estoque_cong2:
  "(\<And>p r. ps p = Some r \<Longrightarrow> tipo r = ''Produto'' \<Longrightarrow> estoque r \<noteq> None \<Longrightarrow> f p = g p) \<Longrightarrow>
   mover_estoque f ps = mover_estoque g ps"
proof (rule ext)
  fix p
  assume h: "\<And>p r. ps p = Some r \<Longrightarrow> tipo r = ''Produto'' \<Longrightarrow> estoque r \<noteq> None \<Longrightarrow> f p = g p"
  show "mover_estoque f ps p = mover_estoque g ps p"
  proof (cases "ps p")
    case None
    then show ?thesis by (simp add: mover_estoque_def)
  next
    case (Some r)
    show ?thesis
    proof (cases "estoque r")
      case None
      with Some show ?thesis by (simp add: mover_estoque_def)
    next
      case (Some s)
      with \<open>ps p = Some r\<close> h [of p r] show ?thesis
        by (auto simp: mover_estoque_def)
    qed
  qed
qed

lemma qtd_pedida_Cons:
  "qtd_pedida p (item # resto) =
     (if the (e_produtoId item) = p then the (e_quantidade item) else 0) + qtd_pedida p resto"
  by (simp add: qtd_pedida_def)

lemma baixar_estoque_produtos:
  "\<exists>d'. baixar_estoque linhas d = Inr (d', ()) \<and>
        produtos d' = mover_estoque (\<lambda>p. - qtd_pedida p linhas) (produtos d)"
proof (induction linhas arbitrary: d)
  case Nil
  then show ?case by (simp add: qtd_pedida_def mover_estoque_zero)
next
  case (Cons item resto)
  let ?p0 = "the (e_produtoId item)"
  let ?q = "the (e_quantidade item)"
  show ?case
  proof (cases "\<exists>r. produtos d ?p0 = Some r \<and> tipo r = ''Produto'' \<and> estoque r \<noteq> None")
    case False
    from Cons.IH [of d] obtain d' where
      a: "baixar_estoque resto d = Inr (d', ())"
      and b: "produtos d' = mover_estoque (\<lambda>p. - qtd_pedida p resto) (produtos d)"
      by blast
    have "mover_estoque (\<lambda>p. - qtd_pedida p resto) (produtos d)
        = mover_estoque (\<lambda>p. - qtd_pedida p (item # resto)) (produtos d)"
      using False by (intro mover_estoque_cong2) (auto simp: qtd_pedida_Cons)
    moreover from False a have "baixar_estoque (item # resto) d = Inr (d', ())"
      by (cases "produtos d ?p0") auto
    ultimately show ?thesis using b by simp
  next
    case True
    then obtain r where r: "produtos d ?p0 = Some r" and t: "tipo r = ''Produto''"
      and e: "estoque r \<noteq> None" by blast
    let ?d1 = "d\<lparr>produtos := (produtos d)(?p0 \<mapsto>
                 r\<lparr>estoque := map_option (\<lambda>s. s + - 1 * ?q) (estoque r)\<rparr>)\<rparr>"
    from Cons.IH [of ?d1] obtain d' where
      a: "baixar_estoque resto ?d1 = Inr (d', ())"
      and b: "produtos d' = mover_estoque (\<lambda>p. - qtd_pedida p resto) (produtos ?d1)"
      by blast
    from mover_estoque_passo [where ps = "produtos d" and ?p0.0 = ?p0 and r = r
        and k = "- 1" and f = "\<lambda>p. qtd_pedida p resto" and q = ?q, OF r t] b
    have "produtos d' = mover_estoque (\<lambda>p. - qtd_pedida p (item # resto)) (produtos d)"
      by (simp add: qtd_pedida_Cons)
    moreover from r t e a have "baixar_estoque (item # resto) d = Inr (d', ())"
      by (simp add: produto_update_estoque_Inr)
    ultimately show ?thesis by blast
  qed
qed

lemma venda_create_estado:
  "venda_create r its d = Inr (d1, a) \<Longrightarrow>
     a = (prox_venda_id d, numerar (prox_venda_id d) (prox_item_id d) its) \<and>
     d1 = d\<lparr>vendas := (vendas d)(prox_venda_id d \<mapsto> r),
            itens := itens d @ numerar (prox_venda_id d) (prox_item_id d) its,
            prox_venda_id := prox_venda_id d + 1,
            prox_item_id := prox_item_id d + int (length its)\<rparr>"
  by (auto simp: venda_create_def Let_def split: if_splits)

lemma create_venda_tx_estado:
  assumes "create_venda_tx r linhas d = Inr (d', a)"
  shows "a = (prox_venda_id d, numerar (prox_venda_id d) (prox_item_id d)
                (map (\<lambda>item. (the (e_produtoId item), the (e_quantidade item),
                               the (e_precoUnit item))) linhas)) \<and>
         d' = d\<lparr>vendas := (vendas d)(prox_venda_id d \<mapsto> r),
                itens := itens d @ snd a,
                prox_venda_id := prox_venda_id d + 1,
                prox_item_id := prox_item_id d + int (length linhas),
                produtos := (if status r = ''Concluida''
                             then mover_estoque (\<lambda>p. - qtd_pedida p linhas) (produtos d)
                             else produtos d)\<rparr>"
proof -
  from create_venda_tx_Inr [OF assms] obtain d1 where
    c: "venda_create r (map (\<lambda>item. (the (e_produtoId item), the (e_quantidade item),
                            the (e_precoUnit item))) linhas) d = Inr (d1, a)"
    and m: "mesmo_resto d1 d'"
    and s: "if status r = ''Concluida'' then (\<exists>u. baixar_estoque linhas d1 = Inr (d', u))
           else d' = d1"
    by blast
  note e = venda_create_estado [OF c]
  from e have "produtos d1 = produtos (d\<lparr>vendas := (vendas d)(prox_venda_id d \<mapsto> r),
            itens := itens d @ numerar (prox_venda_id d) (prox_item_id d)
               (map (\<lambda>item. (the (e_produtoId item), the (e_quantidade item),
                               the (e_precoUnit item))) linhas),
            prox_venda_id := prox_venda_id d + 1,
            prox_item_id := prox_item_id d + int (length linhas)\<rparr>)"
    by simp
  then have p1: "produtos d1 = produtos d" by simp
  have "produtos d' = (if status r = ''Concluida''
                             then mover_estoque (\<lambda>p. - qtd_pedida p linhas) (produtos d)
                             else produtos d)"
  proof (cases "status r = ''Concluida''")
    case True
    with s obtain u where "baixar_estoque linhas d1 = Inr (d', u)" by auto
    moreover from baixar_estoque_produtos [of linhas d1] obtain d'' where
      "baixar_estoque linhas d1 = Inr (d'', ())"
      "produtos d'' = mover_estoque (\<lambda>p. - qtd_pedida p linhas) (produtos d1)" by blast
    ultimately show ?thesis using True p1 by simp
  next
    case False
    with s p1 show ?thesis by simp
  qed
  from mesmo_resto_eq [OF m this] e show ?thesis
    by simp
qed

subsection \<open>Updating a line\<close>

lemma verificarDisponibilidadeProduto_update:
  assumes "itemVenda_findUnique i d = Some itemAtual" and "i \<noteq> 0"
    and "produtos d p = Some produto" and "produto_status produto = ''Ativo''"
  shows "verificarDisponibilidadeProduto (Some p) (Some q) (Some i) d =
           (if null_as_zero (estoque produto) < q - quantidade itemAtual
            then Inl (EstoqueInsuficiente (estoque produto) (q - quantidade itemAtual))
            else Inr (produto, Some (q - quantidade itemAtual)))"
  using assms by (simp add: verificarDisponibilidadeProduto_def truthy_def)

lemma itemVenda_update_Inr:
  assumes "itemVenda_findUnique i d = Some it"
    and "case da_produtoId da of None \<Rightarrow> True | Some p \<Rightarrow> produtos d p \<noteq> None"
  shows "itemVenda_update i da d =
           Inr (d\<lparr>itens := map (\<lambda>x. if item_id x = i then aplicar_dados da x else x) (itens d)\<rparr>,
                aplicar_dados da it)"
  using assms by (auto simp: itemVenda_update_def split: option.splits)

lemma atualizarTotalVenda_Inr:
  "vendas d v = Some r \<Longrightarrow> \<exists>d2 t. atualizarTotalVenda v d = Inr (d2, t) \<and> itens d2 = itens d"
  by (simp add: atualizarTotalVenda_def venda_update_def Let_def)

lemma find_map_item:
  "find (\<lambda>x. item_id x = i) xs = Some it \<Longrightarrow>
   find (\<lambda>x. item_id x = i) (map (\<lambda>x. if item_id x = i then aplicar_dados da x else x) xs)
     = Some (aplicar_dados da it)"
  by (induction xs) (auto simp: aplicar_dados_def)

subsection \<open>The callbacks statement by statement\<close>

text \<open>
  A statement issued through \<open>tx\<close> leaves the committed store alone; when it
  succeeds, the transaction's view moves as the statement says.
\<close>

lemma tx_stmt_committed: "tx_stmt falha k op c = (c', r) \<Longrightarrow> committed c' = committed c"
  by (auto simp: tx_stmt_def via_tx_def split: if_splits sum.splits prod.splits)

lemma tx_view_snoc: "tx_view (c\<lparr>pending := pending c @ [w]\<rparr>) = w (tx_view c)"
  by (simp add: tx_view_def)

lemma tx_stmt_Inr:
  "tx_stmt falha k op c = (c', Inr a) \<Longrightarrow> op (tx_view c) = Inr (tx_view c', a)"
  by (auto simp: tx_stmt_def via_tx_def tx_view_snoc efeito_def split: if_splits sum.splits prod.splits)

lemma tx_stmt_Inl:
  "tx_stmt (\<lambda>k. False) k op c = (c', Inl e) \<Longrightarrow> op (tx_view c) = Inl e"
  by (auto simp: tx_stmt_def via_tx_def split: if_splits sum.splits prod.splits)

lemma baixar_estoque_tx_committed:
  "baixar_estoque_tx falha k linhas c = (c', r) \<Longrightarrow> committed c' = committed c"
proof (induction linhas arbitrary: k c)
  case Nil
  then show ?case by simp
next
  case (Cons item resto)
  obtain c1 r1 where s1: "tx_stmt falha k (produto_findUnique (the (e_produtoId item))) c = (c1, r1)"
    by (cases "tx_stmt falha k (produto_findUnique (the (e_produtoId item))) c")
  note a1 = tx_stmt_committed [OF s1]
  obtain c2 r2 where s2: "tx_stmt falha (k + 1)
                    (produto_update_estoque (the (e_produtoId item))
                       (- the (e_quantidade item))) c1 = (c2, r2)"
    by (cases "tx_stmt falha (k + 1)
                    (produto_update_estoque (the (e_produtoId item))
                       (- the (e_quantidade item))) c1")
  note a2 = tx_stmt_committed [OF s2]
  from Cons.prems s1 s2 a1 a2 Cons.IH [of "k + 2" c1] Cons.IH [of "k + 2" c2]
  show ?case
    by (auto split: sum.splits option.splits if_splits)
qed

lemma baixar_estoque_tx_Inr:
  "baixar_estoque_tx falha k linhas c = (c', Inr u) \<Longrightarrow>
   baixar_estoque linhas (tx_view c) = Inr (tx_view c', ())"
proof (induction linhas arbitrary: k c)
  case Nil
  then show ?case by simp
next
  case (Cons item resto)
  from Cons.prems obtain c1 produto where
    s1: "tx_stmt falha k (produto_findUnique (the (e_produtoId item))) c = (c1, Inr produto)"
    by (auto split: prod.splits sum.splits)
  from tx_stmt_Inr [OF s1] have v1: "tx_view c1 = tx_view c"
    and p: "produto = produtos (tx_view c) (the (e_produtoId item))"
    by (auto simp: produto_findUnique_def)
  show ?case
  proof (cases "\<exists>r. produto = Some r \<and> tipo r = ''Produto'' \<and> estoque r \<noteq> None")
    case False
    with Cons.prems s1 have "baixar_estoque_tx falha (k + 2) resto c1 = (c', Inr u)"
      by (auto split: option.splits)
    from Cons.IH [OF this] False p v1 show ?thesis
      by (auto split: option.splits)
  next
    case True
    then obtain r where r: "produto = Some r" and t: "tipo r = ''Produto''"
      and e: "estoque r \<noteq> None" by blast
    from Cons.prems s1 r t e obtain c2 u2 where
      s2: "tx_stmt falha (k + 1)
             (produto_update_estoque (the (e_produtoId item)) (- the (e_quantidade item))) c1
           = (c2, Inr u2)"
      and s3: "baixar_estoque_tx falha (k + 2) resto c2 = (c', Inr u)"
      by (auto split: prod.splits sum.splits)
    from tx_stmt_Inr [OF s2] v1 Cons.IH [OF s3] r t e p show ?thesis
      by auto
  qed
qed


lemma baixar_estoque_tx_sem_falhas:
  "\<exists>c'. baixar_estoque_tx (\<lambda>k. False) k linhas c = (c', Inr ())"
proof (induction linhas arbitrary: k c)
  case Nil
  then show ?case by simp
next
  case (Cons item resto)
  let ?p = "the (e_produtoId item)"
  let ?c1 = "c\<lparr>pending := pending c @ [efeito (produto_findUnique ?p)]\<rparr>"
  have s1: "tx_stmt (\<lambda>k. False) k (produto_findUnique ?p) c
              = (?c1, Inr (produtos (tx_view c) ?p))"
    by (simp add: tx_stmt_def via_tx_def produto_findUnique_def)
  have v1: "tx_view ?c1 = tx_view c"
    by (simp add: tx_view_snoc efeito_def produto_findUnique_def)
  show ?case
  proof (cases "\<exists>r. produtos (tx_view c) ?p = Some r \<and> tipo r = ''Produto'' \<and> estoque r \<noteq> None")
    case False
    with s1 Cons.IH [of "k + 2" ?c1] show ?thesis
      by (auto split: option.splits)
  next
    case True
    then obtain r where r: "produtos (tx_view c) ?p = Some r" and t: "tipo r = ''Produto''"
      and e: "estoque r \<noteq> None" by blast
    from r v1 have "produtos (tx_view ?c1) ?p = Some r" by simp
    from produto_update_estoque_Inr [OF this, of "- the (e_quantidade item)"]
    obtain c2 where s2: "tx_stmt (\<lambda>k. False) (k + 1)
        (produto_update_estoque ?p (- the (e_quantidade item))) ?c1 = (c2, Inr ())"
      by (simp add: tx_stmt_def via_tx_def)
    from Cons.IH [of "k + 2" c2] obtain c' where
      "baixar_estoque_tx (\<lambda>k. False) (k + 2) resto c2 = (c', Inr ())" by blast
    with s1 s2 r t e show ?thesis by simp
  qed
qed

lemma ajustar_estoque_tx_committed:
  "ajustar_estoque_tx falha k sinal linhas c = (c', r) \<Longrightarrow> committed c' = committed c"
proof (induction linhas arbitrary: k c)
  case Nil
  then show ?case by simp
next
  case (Cons x resto)
  obtain item tp where x: "x = (item, tp)" by (cases x)
  obtain c1 r1 where s1: "tx_stmt falha k
      (produto_update_estoque (produtoId item) (sinal * quantidade item)) c = (c1, r1)"
    by (cases "tx_stmt falha k
      (produto_update_estoque (produtoId item) (sinal * quantidade item)) c")
  from Cons.prems x s1 tx_stmt_committed [OF s1] Cons.IH [of "k + 1" c1] Cons.IH [of "k + 1" c]
  show ?case
    by (auto split: sum.splits option.splits if_splits)
qed

lemma ajustar_estoque_tx_Inr:
  "ajustar_estoque_tx falha k sinal linhas c = (c', Inr u) \<Longrightarrow>
   ajustar_estoque sinal linhas (tx_view c) = Inr (tx_view c', ())"
proof (induction linhas arbitrary: k c)
  case Nil
  then show ?case by simp
next
  case (Cons x resto)
  obtain item tp where x: "x = (item, tp)" by (cases x)
  from Cons.prems x obtain t where tp: "tp = Some t" by (cases tp) auto
  show ?case
  proof (cases "t = ''Produto''")
    case False
    with Cons.prems x tp have "ajustar_estoque_tx falha (k + 1) sinal resto c = (c', Inr u)"
      by simp
    from Cons.IH [OF this] False x tp show ?thesis by simp
  next
    case True
    with Cons.prems x tp obtain c1 u1 where
      s1: "tx_stmt falha k (produto_update_estoque (produtoId item) (sinal * quantidade item)) c
             = (c1, Inr u1)"
      and s2: "ajustar_estoque_tx falha (k + 1) sinal resto c1 = (c', Inr u)"
      by (auto split: prod.splits sum.splits)
    from tx_stmt_Inr [OF s1] Cons.IH [OF s2] True x tp show ?thesis by simp
  qed
qed

lemma ajustar_estoque_tx_Inl:
  "ajustar_estoque_tx (\<lambda>k. False) k sinal linhas c = (c', Inl e) \<Longrightarrow>
   ajustar_estoque sinal linhas (tx_view c) = Inl e"
proof (induction linhas arbitrary: k c)
  case Nil
  then show ?case by simp
next
  case (Cons x resto)
  obtain item tp where x: "x = (item, tp)" by (cases x)
  show ?case
  proof (cases tp)
    case None
    with Cons.prems x show ?thesis by simp
  next
    case (Some t)
    show ?thesis
    proof (cases "t = ''Produto''")
      case False
      with Cons.prems x Some have "ajustar_estoque_tx (\<lambda>k. False) (k + 1) sinal resto c = (c', Inl e)"
        by simp
      from Cons.IH [OF this] False x Some show ?thesis by simp
    next
      case True
      obtain c1 r1 where s1: "tx_stmt (\<lambda>k. False) k
          (produto_update_estoque (produtoId item) (sinal * quantidade item)) c = (c1, r1)"
        by (cases "tx_stmt (\<lambda>k. False) k
          (produto_update_estoque (produtoId item) (sinal * quantidade item)) c")
      show ?thesis
      proof (cases r1)
        case (Inl e1)
        with Cons.prems x Some True s1 have "e1 = e" by simp
        with tx_stmt_Inl [OF s1 [unfolded Inl]] True x Some show ?thesis by simp
      next
        case (Inr u1)
        with Cons.prems x Some True s1
        have s2: "ajustar_estoque_tx (\<lambda>k. False) (k + 1) sinal resto c1 = (c', Inl e)" by simp
        from tx_stmt_Inr [OF s1 [unfolded Inr]] Cons.IH [OF s2] True x Some show ?thesis by simp
      qed
    qed
  qed
qed


lemma transaction_Inl:
  assumes "\<And>c c' r. body c = (c', r) \<Longrightarrow> committed c' = committed c"
    and "transaction body d = (d', Inl e)"
  shows "d' = d"
proof -
  obtain c r where b: "body \<lparr>committed = d, pending = []\<rparr> = (c, r)"
    by (cases "body \<lparr>committed = d, pending = []\<rparr>")
  from assms(1) [OF b] have "committed c = d" by simp
  with assms(2) b show ?thesis
    by (auto simp: transaction_def split: sum.splits)
qed

lemma transaction_Inr:
  assumes "transaction body d = (d', Inr a)"
  shows "\<exists>c. body \<lparr>committed = d, pending = []\<rparr> = (c, Inr a) \<and> tx_view c = d'"
  using assms by (auto simp: transaction_def split: sum.splits prod.splits)

lemma tx_view_inicio: "tx_view \<lparr>committed = d, pending = []\<rparr> = d"
  by (simp add: tx_view_def)

lemma create_venda_callback_committed:
  "create_venda_callback falha r linhas c = (c', x) \<Longrightarrow> committed c' = committed c"
  unfolding create_venda_callback_def tx_bind_def tx_return_def
  by (auto split: prod.splits sum.splits if_splits
      dest!: tx_stmt_committed baixar_estoque_tx_committed)

lemma create_venda_callback_Inr:
  "create_venda_callback falha r linhas c = (c', Inr a) \<Longrightarrow>
   create_venda_tx r linhas (tx_view c) = Inr (tx_view c', a)"
  unfolding create_venda_callback_def tx_bind_def tx_return_def create_venda_tx_def
  by (auto split: prod.splits sum.splits if_splits
      dest!: tx_stmt_Inr baixar_estoque_tx_Inr)

lemma create_venda_callback_Inl:
  "create_venda_callback (\<lambda>k. False) r linhas c = (c', Inl e) \<Longrightarrow>
   create_venda_tx r linhas (tx_view c) = Inl e"
proof -
  assume a: "create_venda_callback (\<lambda>k. False) r linhas c = (c', Inl e)"
  let ?its = "map (\<lambda>item. (the (e_produtoId item), the (e_quantidade item),
                            the (e_precoUnit item))) linhas"
  obtain c1 r1 where s1: "tx_stmt (\<lambda>k. False) 0 (venda_create r ?its) c = (c1, r1)"
    by (cases "tx_stmt (\<lambda>k. False) 0 (venda_create r ?its) c")
  show ?thesis
  proof (cases r1)
    case (Inl e1)
    with a s1 have "e1 = e"
      by (simp add: create_venda_callback_def tx_bind_def)
    with tx_stmt_Inl [OF s1 [unfolded Inl]] show ?thesis
      by (simp add: create_venda_tx_def)
  next
    case (Inr novaVenda)
    obtain c2 where "baixar_estoque_tx (\<lambda>k. False) 1 linhas c1 = (c2, Inr ())"
      using baixar_estoque_tx_sem_falhas [of 1 linhas c1] by blast
    with a s1 Inr show ?thesis
      by (simp add: create_venda_callback_def tx_bind_def tx_return_def split: if_splits)
  qed
qed

lemma remove_venda_callback_committed:
  "remove_venda_callback falha i venda linhas c = (c', x) \<Longrightarrow> committed c' = committed c"
  unfolding remove_venda_callback_def tx_bind_def tx_return_def
  by (auto split: prod.splits sum.splits if_splits
      dest!: tx_stmt_committed ajustar_estoque_tx_committed)

lemma remove_venda_callback_Inr:
  "remove_venda_callback falha i venda linhas c = (c', Inr a) \<Longrightarrow>
   remove_venda_tx i venda linhas (tx_view c) = Inr (tx_view c', a)"
  unfolding remove_venda_callback_def tx_bind_def tx_return_def remove_venda_tx_def
  by (auto split: prod.splits sum.splits if_splits
      dest!: tx_stmt_Inr ajustar_estoque_tx_Inr)

lemma remove_venda_callback_Inl:
  "remove_venda_callback (\<lambda>k. False) i venda linhas c = (c', Inl e) \<Longrightarrow>
   remove_venda_tx i venda linhas (tx_view c) = Inl e"
  unfolding remove_venda_callback_def tx_bind_def tx_return_def remove_venda_tx_def
  by (auto split: prod.splits sum.splits if_splits
      dest!: tx_stmt_Inl tx_stmt_Inr ajustar_estoque_tx_Inl ajustar_estoque_tx_Inr)


lemma create_venda_callback_rollback:
  assumes "transaction (create_venda_callback falha r linhas) d = (d', Inl e)"
  shows "d' = d"
  using create_venda_callback_committed assms by (rule transaction_Inl)

lemma create_venda_falhas_erro: "create_venda_falhas falha req d = (d', Inl e) \<Longrightarrow> d' = d"
  unfolding create_venda_falhas_def Let_def
  by (auto split: if_splits option.splits dest: create_venda_callback_rollback)

lemma create_venda_falhas_Inr:
  assumes "create_venda_falhas falha req d = (d', Inr a)"
  shows "create_venda req d = (d', Inr a)"
proof -
  from assms obtain linhas where
    l: "q_itens req = Some linhas" and
    t: "transaction (create_venda_callback falha (dados_venda req linhas) linhas) d = (d', Inr a)"
    and g: "truthy (q_clienteId req)" "truthy (q_usuarioId req)" "linhas \<noteq> []"
       "validar_itens 0 linhas = None"
       "verificarExistenciaRegistros (the (q_clienteId req)) (the (q_usuarioId req)) linhas d = []"
    unfolding create_venda_falhas_def Let_def
    by (auto split: if_splits option.splits)
  from transaction_Inr [OF t] obtain c where
    "create_venda_callback falha (dados_venda req linhas) linhas \<lparr>committed = d, pending = []\<rparr>
       = (c, Inr a)" and "tx_view c = d'" by blast
  from create_venda_callback_Inr [OF this(1)] this(2)
  have "create_venda_tx (dados_venda req linhas) linhas d = Inr (d', a)"
    by (simp add: tx_view_inicio)
  with l g show ?thesis
    by (simp add: create_venda_def transaction_via_tx)
qed

lemma create_venda_callback_sem_falhas:
  "transaction (create_venda_callback (\<lambda>k. False) r linhas) d =
   transaction (via_tx (create_venda_tx r linhas)) d"
proof -
  obtain c x where b: "create_venda_callback (\<lambda>k. False) r linhas \<lparr>committed = d, pending = []\<rparr>
                         = (c, x)"
    by (cases "create_venda_callback (\<lambda>k. False) r linhas \<lparr>committed = d, pending = []\<rparr>")
  from create_venda_callback_committed [OF b] have k: "committed c = d" by simp
  show ?thesis
  proof (cases x)
    case (Inl e)
    from b Inl k have "transaction (create_venda_callback (\<lambda>k. False) r linhas) d = (d, Inl e)"
      by (simp add: transaction_def)
    moreover from create_venda_callback_Inl [OF b [unfolded Inl]]
    have "transaction (via_tx (create_venda_tx r linhas)) d = (d, Inl e)"
      by (simp add: transaction_via_tx tx_view_inicio)
    ultimately show ?thesis by simp
  next
    case (Inr a)
    from b Inr have "transaction (create_venda_callback (\<lambda>k. False) r linhas) d = (tx_view c, Inr a)"
      by (simp add: transaction_def)
    moreover from create_venda_callback_Inr [OF b [unfolded Inr]]
    have "transaction (via_tx (create_venda_tx r linhas)) d = (tx_view c, Inr a)"
      by (simp add: transaction_via_tx tx_view_inicio)
    ultimately show ?thesis by simp
  qed
qed

lemma create_venda_sem_falhas: "create_venda_falhas (\<lambda>k. False) req d = create_venda req d"
  unfolding create_venda_falhas_def create_venda_def create_venda_callback_sem_falhas
  by (rule refl)

lemma remove_venda_callback_rollback:
  assumes "transaction (remove_venda_callback falha i venda linhas) d = (d', Inl e)"
  shows "d' = d"
  using remove_venda_callback_committed assms by (rule transaction_Inl)

lemma remove_venda_falhas_erro: "remove_venda_falhas falha ido d = (d', Inl e) \<Longrightarrow> d' = d"
  unfolding remove_venda_falhas_def
  by (auto split: option.splits dest: remove_venda_callback_rollback)

lemma remove_venda_callback_sem_falhas:
  "transaction (remove_venda_callback (\<lambda>k. False) i venda linhas) d =
   transaction (via_tx (remove_venda_tx i venda linhas)) d"
proof -
  obtain c x where b: "remove_venda_callback (\<lambda>k. False) i venda linhas
                         \<lparr>committed = d, pending = []\<rparr> = (c, x)"
    by (cases "remove_venda_callback (\<lambda>k. False) i venda linhas \<lparr>committed = d, pending = []\<rparr>")
  from remove_venda_callback_committed [OF b] have k: "committed c = d" by simp
  show ?thesis
  proof (cases x)
    case (Inl e)
    from b Inl k have "transaction (remove_venda_callback (\<lambda>k. False) i venda linhas) d = (d, Inl e)"
      by (simp add: transaction_def)
    moreover from remove_venda_callback_Inl [OF b [unfolded Inl]]
    have "transaction (via_tx (remove_venda_tx i venda linhas)) d = (d, Inl e)"
      by (simp add: transaction_via_tx tx_view_inicio)
    ultimately show ?thesis by simp
  next
    case (Inr a)
    from b Inr have "transaction (remove_venda_callback (\<lambda>k. False) i venda linhas) d = (tx_view c, Inr a)"
      by (simp add: transaction_def)
    moreover from remove_venda_callback_Inr [OF b [unfolded Inr]]
    have "transaction (via_tx (remove_venda_tx i venda linhas)) d = (tx_view c, Inr a)"
      by (simp add: transaction_via_tx tx_view_inicio)
    ultimately show ?thesis by simp
  qed
qed

lemma remove_venda_sem_falhas: "remove_venda_falhas (\<lambda>k. False) ido d = remove_venda ido d"
  unfolding remove_venda_falhas_def remove_venda_def remove_venda_callback_sem_falhas
  by (rule refl)

lemma remove_venda_falhas_Inr:
  assumes "remove_venda_falhas falha ido d = (d', Inr a)"
  shows "remove_venda ido d = (d', Inr a)"
proof -
  from assms obtain i venda where
    i: "ido = Some i" and v: "vendas d i = Some venda" and
    t: "transaction (remove_venda_callback falha i venda (itens_com_produto i d)) d = (d', Inr a)"
    unfolding remove_venda_falhas_def
    by (auto split: option.splits)
  from transaction_Inr [OF t] obtain c where
    "remove_venda_callback falha i venda (itens_com_produto i d) \<lparr>committed = d, pending = []\<rparr>
       = (c, Inr a)" and "tx_view c = d'" by blast
  from remove_venda_callback_Inr [OF this(1)] this(2)
  have "remove_venda_tx i venda (itens_com_produto i d) d = Inr (d', a)"
    by (simp add: tx_view_inicio)
  with i v show ?thesis
    by (simp add: remove_venda_def transaction_via_tx)
qed

lemma numerar_length: "length (numerar v k its) = length its"
  by (simp add: numerar_def)

lemma numerar_nth:
  "n < length linhas \<Longrightarrow>
   numerar v k (map (\<lambda>item. (the (e_produtoId item), the (e_quantidade item),
                              the (e_precoUnit item))) linhas) ! n =
     \<lparr>item_id = k + int n, vendaId = v, produtoId = the (e_produtoId (linhas ! n)),
      quantidade = the (e_quantidade (linhas ! n)),
      precoUnit = the (e_precoUnit (linhas ! n))\<rparr>"
  by (simp add: numerar_def nth_enumerate_eq)

section \<open>The properties\<close>

text \<open>
  C1 (total invariant). The claim is that after any sequence of line mutations the
  persisted total of a sale equals the sum of quantity times unit price over its
  current lines, the recomputation being part of the mutation's transaction. The
  recomputation runs through the module-level client, outside the transaction: it
  reads the lines as committed before the mutation. Deleting line 2 (one unit at 5)
  of the pending sale 1 succeeds and leaves the line of two units at 10, whose sum is
  20, with the persisted total still 25.
\<close>

theorem remove_item_total_desatualizado:
  "snd (remove_item (Some 2) db_exemplo) = Inr 1 \<and>
   itemVenda_findMany 1 (fst (remove_item (Some 2) db_exemplo)) =
     [\<lparr>item_id = 1, vendaId = 1, produtoId = 1, quantidade = 2, precoUnit = 10\<rparr>] \<and>
   soma_itens 1 (fst (remove_item (Some 2) db_exemplo)) = 20 \<and>
   map_option total (vendas (fst (remove_item (Some 2) db_exemplo)) 1) = Some 25"
  by (simp add: db_exemplo_def remove_item_def itemVenda_findUnique_def
      verificarVendaModificavel_def itemVenda_delete_def atualizarTotalVenda_def
      itemVenda_findMany_def venda_update_def transaction_def tx_bind_def via_tx_def
      via_prisma_def tx_return_def tx_view_def efeito_def Let_def soma_itens_def)

text \<open>
  C3 (stock check and the exemption of services). The claim exempts lines that
  reference a service from the stock check, in creating a sale and in adding a line.
  \<open>verificarDisponibilidadeProduto\<close> does not look at the type: adding one unit of
  the service 2, whose stock is null, to the pending sale 1 is refused for
  insufficient stock and writes nothing, while the same line is accepted when a sale
  is created with it.
\<close>

theorem create_item_servico_estoque_insuficiente:
  "map_option tipo (produtos db_exemplo 2) = Some ''Servico'' \<and>
   create_item \<lparr>r_vendaId = Some 1, r_produtoId = Some 2, r_quantidade = Some 1,
                 r_precoUnit = None\<rparr> db_exemplo =
     (db_exemplo, Inl (EstoqueInsuficiente None 1)) \<and>
   snd (create_venda
          (req_exemplo\<lparr>q_itens := Some [\<lparr>e_produtoId = Some 2, e_quantidade = Some 1,
                                            e_precoUnit = Some 50\<rparr>]\<rparr>) db_exemplo) =
     Inr (3, [\<lparr>item_id = 4, vendaId = 3, produtoId = 2, quantidade = 1, precoUnit = 50\<rparr>])"
  by (simp add: db_exemplo_def req_exemplo_def create_item_def validarItemVenda_def
      verificarVendaModificavel_def verificarDisponibilidadeProduto_def create_venda_def
      create_venda_tx_def venda_create_def numerar_def dados_venda_def totalCalculado_def
      verificarExistenciaRegistros_def verificar_produto_def produto_update_estoque_def
      truthy_def truthy_str_def null_as_zero_def transaction_def via_tx_def tx_view_def
      efeito_def Let_def)

theorem create_item_servico_estoque_insuficiente_witness:
  "snd (create_item \<lparr>r_vendaId = Some 1, r_produtoId = Some 2, r_quantidade = Some 1,
                      r_precoUnit = None\<rparr> db_exemplo) =
     Inl (EstoqueInsuficiente None 1)"
  using create_item_servico_estoque_insuficiente by simp




text \<open>
  C8 (default unit price), as stated: a line created without a unit price takes the
  catalog price, in creating a sale as in adding a line. Creating a sale with such a
  line is refused (\<open>precoUnit\<close> is required there), and nothing is written.
\<close>

theorem create_venda_sem_preco_recusada:
  "create_venda
     (req_exemplo\<lparr>q_itens := Some [\<lparr>e_produtoId = Some 1, e_quantidade = Some 2,
                                       e_precoUnit = None\<rparr>]\<rparr>) db_exemplo =
     (db_exemplo, Inl (ItemInvalido 1 C_precoUnit))"
  by (simp add: db_exemplo_def req_exemplo_def create_venda_def
      create_venda_tx_def venda_create_def numerar_def dados_venda_def totalCalculado_def
      verificarExistenciaRegistros_def verificar_produto_def produto_update_estoque_def
      truthy_def truthy_str_def null_as_zero_def transaction_def via_tx_def tx_view_def
      efeito_def Let_def)

text \<open>
  C8, amended: a line added to a sale without a unit price takes the current price
  of the catalog entry it references; creating a sale requires a unit price on every
  line, and a request with a line that has none fails and writes nothing.
\<close>

theorem create_item_preco_padrao:
  "(create_item req d = (d', Inr it) \<longrightarrow> r_precoUnit req = None \<longrightarrow>
      (\<exists>produto. produtos d (produtoId it) = Some produto \<and> precoUnit it = preco produto)) \<and>
   (q_itens req2 = Some linhas \<longrightarrow> item \<in> set linhas \<longrightarrow> e_precoUnit item = None \<longrightarrow>
      (\<exists>e. create_venda req2 d2 = (d2, Inl e)))"
proof (intro conjI impI)
  assume a: "create_item req d = (d', Inr it)" and b: "r_precoUnit req = None"
  from create_item_sucesso [OF a] obtain produto qn d1 where
    v: "verificarDisponibilidadeProduto (r_produtoId req) (r_quantidade req) None d
           = Inr (produto, qn)"
    and c: "itemVenda_create (the (r_vendaId req)) (the (r_produtoId req)) (r_quantidade req)
           (if truthy (r_precoUnit req) then the (r_precoUnit req) else preco produto) d
           = Inr (d1, it)"
    by blast
  from verificarDisponibilidadeProduto_Inr [OF v] obtain p where
    p: "r_produtoId req = Some p" "produtos d p = Some produto" by blast
  from itemVenda_create_Inr [OF c] b p have "produtoId it = p" "precoUnit it = preco produto"
    by (auto simp: truthy_def)
  with p show "\<exists>produto. produtos d (produtoId it) = Some produto \<and> precoUnit it = preco produto"
    by simp
next
  assume "q_itens req2 = Some linhas" "item \<in> set linhas" "e_precoUnit item = None"
  then show "\<exists>e. create_venda req2 d2 = (d2, Inl e)"
    by (rule create_venda_linha_sem_preco)
qed

theorem create_item_preco_padrao_witness:
  "snd (create_item \<lparr>r_vendaId = Some 1, r_produtoId = Some 1, r_quantidade = Some 3,
                      r_precoUnit = None\<rparr> db_exemplo) =
     Inr \<lparr>item_id = 4, vendaId = 1, produtoId = 1, quantidade = 3, precoUnit = 10\<rparr> \<and>
   (\<exists>produto. produtos db_exemplo 1 = Some produto \<and> (10::rat) = preco produto) \<and>
   (\<exists>e. create_venda
          (req_exemplo\<lparr>q_itens := Some [\<lparr>e_produtoId = Some 1, e_quantidade = Some 2,
                                            e_precoUnit = None\<rparr>]\<rparr>) db_exemplo =
        (db_exemplo, Inl e))"
proof -
  let ?req = "\<lparr>r_vendaId = Some 1, r_produtoId = Some 1, r_quantidade = Some 3,
               r_precoUnit = None\<rparr>"
  let ?it = "\<lparr>item_id = 4, vendaId = 1, produtoId = 1, quantidade = 3, precoUnit = 10\<rparr>"
  let ?item = "\<lparr>e_produtoId = Some 1, e_quantidade = Some 2, e_precoUnit = None\<rparr>"
  let ?req2 = "req_exemplo\<lparr>q_itens := Some [?item]\<rparr>"
  have s: "snd (create_item ?req db_exemplo) = Inr ?it"
    by (simp add: db_exemplo_def create_item_def validarItemVenda_def
      verificarVendaModificavel_def verificarDisponibilidadeProduto_def
      itemVenda_findUnique_def itemVenda_create_def atualizarTotalVenda_def
      itemVenda_findMany_def venda_update_def truthy_def null_as_zero_def transaction_def
      tx_bind_def via_tx_def via_prisma_def tx_return_def tx_view_def efeito_def Let_def)
  then have h: "create_item ?req db_exemplo = (fst (create_item ?req db_exemplo), Inr ?it)"
    by (simp add: prod_eq_iff)
  from create_item_preco_padrao
    [of ?req db_exemplo "fst (create_item ?req db_exemplo)" ?it ?req2 "[?item]" ?item db_exemplo]
    h
  have "(\<exists>produto. produtos db_exemplo 1 = Some produto \<and> (10::rat) = preco produto) \<and>
        (\<exists>e. create_venda ?req2 db_exemplo = (db_exemplo, Inl e))"
    by simp
  with s show ?thesis by simp
qed

text \<open>
  C5 (modifiability), as stated: every line mutation on a completed or cancelled
  sale fails with the sale-not-modifiable error. The payload is validated first:
  adding a line with quantity zero to the completed sale 2 fails with the validation
  error instead.
\<close>

theorem create_item_concluida_dados_invalidos:
  "map_option status (vendas db_exemplo 2) = Some ''Concluida'' \<and>
   create_item \<lparr>r_vendaId = Some 2, r_produtoId = Some 1, r_quantidade = Some 0,
                 r_precoUnit = None\<rparr> db_exemplo =
     (db_exemplo, Inl (DadosInvalidos [C_quantidade]))"
  by (simp add: db_exemplo_def create_item_def validarItemVenda_def
      verificarVendaModificavel_def verificarDisponibilidadeProduto_def
      itemVenda_findUnique_def itemVenda_create_def atualizarTotalVenda_def
      itemVenda_findMany_def venda_update_def truthy_def null_as_zero_def transaction_def
      tx_bind_def via_tx_def via_prisma_def tx_return_def tx_view_def efeito_def Let_def)

text \<open>
  C5, amended: on a sale whose status is \<open>Concluida\<close> or \<open>Cancelada\<close>, adding a
  line, updating a line and deleting a line all fail and leave the store as it was
  (the sale, its lines, its total and every stock): with the validation error when
  the payload of the addition or the update is invalid, and with the
  sale-not-modifiable error otherwise. The guard lets a sale through whose status is
  \<open>Pendente\<close>.
\<close>

theorem venda_nao_modificavel:
  assumes "vendas d v = Some r"
  shows "(status r = ''Concluida'' \<or> status r = ''Cancelada'' \<longrightarrow>
           (r_vendaId req = Some v \<longrightarrow>
              create_item req d =
                (d, Inl (if validarItemVenda req False \<noteq> []
                         then DadosInvalidos (validarItemVenda req False)
                         else erro_nao_modificavel (status r)))) \<and>
           (itemVenda_findUnique i d = Some it \<and> vendaId it = v \<longrightarrow>
              update_item (Some i) req' d =
                (d, Inl (if validarItemVenda req' True \<noteq> []
                         then DadosInvalidos (validarItemVenda req' True)
                         else erro_nao_modificavel (status r))) \<and>
              remove_item (Some i) d = (d, Inl (erro_nao_modificavel (status r))))) \<and>
         (status r = ''Pendente'' \<longrightarrow> verificarVendaModificavel (Some v) d = Inr r)"
proof (intro conjI impI)
  assume s: "status r = ''Concluida'' \<or> status r = ''Cancelada''" and q: "r_vendaId req = Some v"
  from verificarVendaModificavel_bloqueada [OF assms s] q
  show "create_item req d =
                (d, Inl (if validarItemVenda req False \<noteq> []
                         then DadosInvalidos (validarItemVenda req False)
                         else erro_nao_modificavel (status r)))"
    by (simp add: create_item_def Let_def)
next
  assume s: "status r = ''Concluida'' \<or> status r = ''Cancelada''"
    and q: "itemVenda_findUnique i d = Some it \<and> vendaId it = v"
  from verificarVendaModificavel_bloqueada [OF assms s] q assms
  show "update_item (Some i) req' d =
                (d, Inl (if validarItemVenda req' True \<noteq> []
                         then DadosInvalidos (validarItemVenda req' True)
                         else erro_nao_modificavel (status r)))"
    by (simp add: update_item_def Let_def)
  from verificarVendaModificavel_bloqueada [OF assms s] q assms
  show "remove_item (Some i) d = (d, Inl (erro_nao_modificavel (status r)))"
    by (simp add: remove_item_def)
next
  assume "status r = ''Pendente''"
  with assms show "verificarVendaModificavel (Some v) d = Inr r"
    by (simp add: verificarVendaModificavel_def)
qed

theorem venda_nao_modificavel_witness:
  "create_item \<lparr>r_vendaId = Some 2, r_produtoId = Some 1, r_quantidade = Some 1,
                 r_precoUnit = None\<rparr> db_exemplo = (db_exemplo, Inl VendaConcluida) \<and>
   update_item (Some 3) \<lparr>r_vendaId = None, r_produtoId = None, r_quantidade = Some 1,
                          r_precoUnit = None\<rparr> db_exemplo = (db_exemplo, Inl VendaConcluida) \<and>
   remove_item (Some 3) db_exemplo = (db_exemplo, Inl VendaConcluida) \<and>
   verificarVendaModificavel (Some 1) db_exemplo =
     Inr \<lparr>clienteId = 1, usuarioId = 1, data = 0, total = 25, status = ''Pendente'',
          observacoes = None\<rparr>"
proof -
  let ?r1 = "\<lparr>clienteId = 1, usuarioId = 1, data = 0, total = 25, status = ''Pendente'',
              observacoes = None\<rparr>"
  let ?r2 = "\<lparr>clienteId = 1, usuarioId = 1, data = 0, total = 30, status = ''Concluida'',
              observacoes = None\<rparr>"
  let ?it = "\<lparr>item_id = 3, vendaId = 2, produtoId = 1, quantidade = 3, precoUnit = 10\<rparr>"
  let ?req = "\<lparr>r_vendaId = Some 2, r_produtoId = Some 1, r_quantidade = Some 1,
               r_precoUnit = None\<rparr>"
  let ?req' = "\<lparr>r_vendaId = None, r_produtoId = None, r_quantidade = Some 1,
                r_precoUnit = None\<rparr>"
  have v1: "vendas db_exemplo 1 = Some ?r1" and v2: "vendas db_exemplo 2 = Some ?r2"
    by (simp_all add: db_exemplo_def)
  have f: "itemVenda_findUnique 3 db_exemplo = Some ?it"
    by (simp add: itemVenda_findUnique_def db_exemplo_def)
  from venda_nao_modificavel [OF v2, of ?req 3 ?it ?req'] f
  have "create_item ?req db_exemplo = (db_exemplo, Inl VendaConcluida)"
    and "update_item (Some 3) ?req' db_exemplo = (db_exemplo, Inl VendaConcluida)"
    and "remove_item (Some 3) db_exemplo = (db_exemplo, Inl VendaConcluida)"
    by (simp_all add: validarItemVenda_def truthy_def erro_nao_modificavel_def)
  moreover from venda_nao_modificavel [OF v1, of ?req 3 ?it ?req']
  have "verificarVendaModificavel (Some 1) db_exemplo = Inr ?r1"
    by simp
  ultimately show ?thesis by simp
qed
text \<open>
  C2 (status changes), as stated: an id that names no sale fails with sale-not-found.
  The status is checked before the sale is looked up, so with a status outside
  \<open>Pendente\<close>, \<open>Concluida\<close>, \<open>Cancelada\<close> such an id fails with the
  invalid-status error.
\<close>

theorem updateStatus_inexistente_status_invalido:
  "vendas db_exemplo 7 = None \<and>
   updateStatus (Some 7) (Some ''Foo'') db_exemplo = (db_exemplo, Inl StatusInvalido)"
  by (simp add: db_exemplo_def updateStatus_def truthy_str_def status_validos_def)

text \<open>
  C2, amended. \<open>updateStatus\<close> with a status outside \<open>Pendente\<close>, \<open>Concluida\<close>,
  \<open>Cancelada\<close> fails with the invalid-status error, whether the sale exists or not.
  For an existing sale and a valid status: a call with the sale's own status moves no
  stock; a change into \<open>Concluida\<close> from another status lowers the stock of every
  product of type \<open>Produto\<close> by the quantities of the sale's lines that reference
  it; a change out of \<open>Concluida\<close> raises it by the same quantities; any other
  change moves no stock. With a valid status, an id that names no sale fails with
  sale-not-found. The lines are assumed to reference products of the store (the
  foreign key) where the stock loop runs.
\<close>

theorem updateStatus_transicoes:
  assumes "vendas d i = Some r"
  shows
   "(\<not> truthy_str st \<or> the st \<notin> set status_validos \<longrightarrow>
       updateStatus (Some i) st d = (d, Inl StatusInvalido)) \<and>
    (novo \<in> set status_validos \<and> status r = novo \<longrightarrow>
       updateStatus (Some i) (Some novo) d =
         (d\<lparr>vendas := (vendas d)(i \<mapsto> r\<lparr>status := novo\<rparr>)\<rparr>, Inr (r\<lparr>status := novo\<rparr>))) \<and>
    (novo = ''Concluida'' \<and> status r \<noteq> ''Concluida'' \<and> itens_tem_produto d \<longrightarrow>
       updateStatus (Some i) (Some novo) d =
         (d\<lparr>produtos := mover_estoque (\<lambda>p. - qtd_vendida i p d) (produtos d),
            vendas := (vendas d)(i \<mapsto> r\<lparr>status := novo\<rparr>)\<rparr>, Inr (r\<lparr>status := novo\<rparr>))) \<and>
    (novo \<in> set status_validos \<and> novo \<noteq> ''Concluida'' \<and> status r = ''Concluida'' \<and>
     itens_tem_produto d \<longrightarrow>
       updateStatus (Some i) (Some novo) d =
         (d\<lparr>produtos := mover_estoque (\<lambda>p. qtd_vendida i p d) (produtos d),
            vendas := (vendas d)(i \<mapsto> r\<lparr>status := novo\<rparr>)\<rparr>, Inr (r\<lparr>status := novo\<rparr>))) \<and>
    (novo \<in> set status_validos \<and> novo \<noteq> ''Concluida'' \<and> status r \<noteq> ''Concluida'' \<longrightarrow>
       updateStatus (Some i) (Some novo) d =
         (d\<lparr>vendas := (vendas d)(i \<mapsto> r\<lparr>status := novo\<rparr>)\<rparr>, Inr (r\<lparr>status := novo\<rparr>))) \<and>
    (vendas d j = None \<longrightarrow>
       updateStatus (Some j) st d =
         (d, Inl (if \<not> truthy_str st \<or> the st \<notin> set status_validos then StatusInvalido
                  else VendaNaoEncontrada)))"
proof (intro conjI impI)
  assume "\<not> truthy_str st \<or> the st \<notin> set status_validos"
  then show "updateStatus (Some i) st d = (d, Inl StatusInvalido)"
    by (simp add: updateStatus_def)
next
  assume a: "novo \<in> set status_validos \<and> status r = novo"
  then have "delta_status (status r) novo = 0" by (simp add: delta_status_def)
  with updateStatus_existente [OF assms, of novo] a
  show "updateStatus (Some i) (Some novo) d =
         (d\<lparr>vendas := (vendas d)(i \<mapsto> r\<lparr>status := novo\<rparr>)\<rparr>, Inr (r\<lparr>status := novo\<rparr>))"
    by (simp add: mover_estoque_zero)
next
  assume a: "novo = ''Concluida'' \<and> status r \<noteq> ''Concluida'' \<and> itens_tem_produto d"
  then have "delta_status (status r) novo = - 1" "novo \<in> set status_validos"
    by (auto simp: delta_status_def status_validos_def)
  with updateStatus_existente [OF assms, of novo] a
  show "updateStatus (Some i) (Some novo) d =
         (d\<lparr>produtos := mover_estoque (\<lambda>p. - qtd_vendida i p d) (produtos d),
            vendas := (vendas d)(i \<mapsto> r\<lparr>status := novo\<rparr>)\<rparr>, Inr (r\<lparr>status := novo\<rparr>))"
    by simp
next
  assume a: "novo \<in> set status_validos \<and> novo \<noteq> ''Concluida'' \<and> status r = ''Concluida'' \<and>
     itens_tem_produto d"
  then have "delta_status (status r) novo = 1"
    by (auto simp: delta_status_def)
  with updateStatus_existente [OF assms, of novo] a
  show "updateStatus (Some i) (Some novo) d =
         (d\<lparr>produtos := mover_estoque (\<lambda>p. qtd_vendida i p d) (produtos d),
            vendas := (vendas d)(i \<mapsto> r\<lparr>status := novo\<rparr>)\<rparr>, Inr (r\<lparr>status := novo\<rparr>))"
    by simp
next
  assume a: "novo \<in> set status_validos \<and> novo \<noteq> ''Concluida'' \<and> status r \<noteq> ''Concluida''"
  then have "delta_status (status r) novo = 0" by (simp add: delta_status_def)
  with updateStatus_existente [OF assms, of novo] a
  show "updateStatus (Some i) (Some novo) d =
         (d\<lparr>vendas := (vendas d)(i \<mapsto> r\<lparr>status := novo\<rparr>)\<rparr>, Inr (r\<lparr>status := novo\<rparr>))"
    by (simp add: mover_estoque_zero)
next
  assume "vendas d j = None"
  then show "updateStatus (Some j) st d =
         (d, Inl (if \<not> truthy_str st \<or> the st \<notin> set status_validos then StatusInvalido
                  else VendaNaoEncontrada))"
    by (simp add: updateStatus_def transaction_via_tx updateStatus_tx_def)
qed

theorem updateStatus_transicoes_witness:
  "updateStatus (Some 1) (Some ''Foo'') db_exemplo = (db_exemplo, Inl StatusInvalido) \<and>
   map_option estoque (produtos (fst (updateStatus (Some 1) (Some ''Pendente'') db_exemplo)) 1)
     = Some (Some 10) \<and>
   map_option estoque (produtos (fst (updateStatus (Some 1) (Some ''Concluida'') db_exemplo)) 1)
     = Some (Some 7) \<and>
   map_option estoque (produtos (fst (updateStatus (Some 2) (Some ''Cancelada'') db_exemplo)) 1)
     = Some (Some 13) \<and>
   map_option estoque (produtos (fst (updateStatus (Some 1) (Some ''Cancelada'') db_exemplo)) 1)
     = Some (Some 10) \<and>
   updateStatus (Some 7) (Some ''Pendente'') db_exemplo = (db_exemplo, Inl VendaNaoEncontrada)"
proof -
  let ?r1 = "\<lparr>clienteId = 1, usuarioId = 1, data = 0, total = 25, status = ''Pendente'',
              observacoes = None\<rparr>"
  let ?r2 = "\<lparr>clienteId = 1, usuarioId = 1, data = 0, total = 30, status = ''Concluida'',
              observacoes = None\<rparr>"
  have v1: "vendas db_exemplo 1 = Some ?r1" and v2: "vendas db_exemplo 2 = Some ?r2"
    and v7: "vendas db_exemplo 7 = None"
    by (simp_all add: db_exemplo_def)
  have foo: "\<not> truthy_str (Some ''Foo'') \<or> the (Some ''Foo'') \<notin> set status_validos"
    by (simp add: status_validos_def)
  have mesmo: "''Pendente'' \<in> set status_validos \<and> status ?r1 = ''Pendente''"
    by (simp add: status_validos_def)
  have conclui: "''Concluida'' = ''Concluida'' \<and> status ?r1 \<noteq> ''Concluida'' \<and>
                 itens_tem_produto db_exemplo"
    by (simp add: exemplo_fk)
  have reverte: "''Cancelada'' \<in> set status_validos \<and> ''Cancelada'' \<noteq> ''Concluida'' \<and>
                 status ?r2 = ''Concluida'' \<and> itens_tem_produto db_exemplo"
    by (simp add: status_validos_def exemplo_fk)
  have outro: "''Cancelada'' \<in> set status_validos \<and> ''Cancelada'' \<noteq> ''Concluida'' \<and>
               status ?r1 \<noteq> ''Concluida''"
    by (simp add: status_validos_def)
  note a = updateStatus_transicoes [OF v1, where st = "Some ''Foo''", THEN conjunct1, THEN mp,
             OF foo]
  note b = updateStatus_transicoes [OF v1, where novo = "''Pendente''", THEN conjunct2,
             THEN conjunct1, THEN mp, OF mesmo]
  note c = updateStatus_transicoes [OF v1, where novo = "''Concluida''", THEN conjunct2,
             THEN conjunct2, THEN conjunct1, THEN mp, OF conclui]
  note d = updateStatus_transicoes [OF v2, where novo = "''Cancelada''", THEN conjunct2,
             THEN conjunct2, THEN conjunct2, THEN conjunct1, THEN mp, OF reverte]
  note e = updateStatus_transicoes [OF v1, where novo = "''Cancelada''", THEN conjunct2,
             THEN conjunct2, THEN conjunct2, THEN conjunct2, THEN conjunct1, THEN mp, OF outro]
  note f = updateStatus_transicoes [OF v1, where st = "Some ''Pendente''" and j = 7,
             THEN conjunct2, THEN conjunct2, THEN conjunct2, THEN conjunct2, THEN conjunct2,
             THEN mp, OF v7]
  have "map_option estoque
          (produtos (fst (updateStatus (Some 1) (Some ''Pendente'') db_exemplo)) 1)
          = Some (Some 10)"
    unfolding b by (simp add: db_exemplo_def)
  moreover have "map_option estoque
          (produtos (fst (updateStatus (Some 1) (Some ''Concluida'') db_exemplo)) 1)
          = Some (Some 7)"
    unfolding c
    by (simp add: mover_estoque_def qtd_vendida_def itemVenda_findMany_def db_exemplo_def)
  moreover have "map_option estoque
          (produtos (fst (updateStatus (Some 2) (Some ''Cancelada'') db_exemplo)) 1)
          = Some (Some 13)"
    unfolding d
    by (simp add: mover_estoque_def qtd_vendida_def itemVenda_findMany_def db_exemplo_def)
  moreover have "map_option estoque
          (produtos (fst (updateStatus (Some 1) (Some ''Cancelada'') db_exemplo)) 1)
          = Some (Some 10)"
    unfolding e by (simp add: db_exemplo_def)
  moreover have "updateStatus (Some 7) (Some ''Pendente'') db_exemplo =
                   (db_exemplo, Inl VendaNaoEncontrada)"
    using f by (simp add: truthy_str_def status_validos_def)
  ultimately show ?thesis using a by simp
qed

text \<open>
  C10 (no stock check at completion). Neither \<open>updateStatus\<close> nor \<open>update\<close>
  ever fails for insufficient stock. For an existing sale that is not completed,
  the change into \<open>Concluida\<close>, by \<open>updateStatus\<close> or by \<open>update\<close> with that
  status, succeeds: no availability check is made, and the stock of every
  product of type \<open>Produto\<close> is lowered by the quantities of the sale's lines,
  whatever it was; a stock \<open>s\<close> becomes \<open>s\<close> minus the quantity sold, which is
  negative when the quantity exceeds \<open>s\<close>. The lines are assumed to reference
  products of the store (the foreign key); for \<open>update\<close> the request changes neither
  the customer nor the user.
\<close>

theorem concluir_sem_verificar_estoque:
  assumes "vendas d i = Some r" and "status r \<noteq> ''Concluida''" and "itens_tem_produto d"
  shows
    "updateStatus (Some i) (Some ''Concluida'') d =
       (d\<lparr>produtos := mover_estoque (\<lambda>p. - qtd_vendida i p d) (produtos d),
          vendas := (vendas d)(i \<mapsto> r\<lparr>status := ''Concluida''\<rparr>)\<rparr>,
        Inr (r\<lparr>status := ''Concluida''\<rparr>)) \<and>
     (u_status u = Some ''Concluida'' \<and> u_clienteId u = None \<and> u_usuarioId u = None \<longrightarrow>
        update_venda (Some i) u d =
          (d\<lparr>produtos := mover_estoque (\<lambda>p. - qtd_vendida i p d) (produtos d),
             vendas := (vendas d)(i \<mapsto> aplicar_venda_upd u r)\<rparr>,
           Inr (aplicar_venda_upd u r))) \<and>
     (produtos d p = Some pr \<and> tipo pr = ''Produto'' \<and> estoque pr = Some s \<longrightarrow>
        map_option estoque (mover_estoque (\<lambda>p. - qtd_vendida i p d) (produtos d) p) =
          Some (Some (s - qtd_vendida i p d))) \<and>
     snd (updateStatus ido st d0) \<noteq> Inl (EstoqueInsuficiente a b) \<and>
     snd (update_venda ido u0 d0) \<noteq> Inl (EstoqueInsuficiente a b)"
proof (intro conjI impI)
  have "delta_status (status r) ''Concluida'' = - 1"
    using assms(2) by (simp add: delta_status_def)
  with updateStatus_existente [OF assms(1), of "''Concluida''"] assms(3)
  show "updateStatus (Some i) (Some ''Concluida'') d =
       (d\<lparr>produtos := mover_estoque (\<lambda>p. - qtd_vendida i p d) (produtos d),
          vendas := (vendas d)(i \<mapsto> r\<lparr>status := ''Concluida''\<rparr>)\<rparr>,
        Inr (r\<lparr>status := ''Concluida''\<rparr>))"
    by (simp add: status_validos_def)
next
  assume "u_status u = Some ''Concluida'' \<and> u_clienteId u = None \<and> u_usuarioId u = None"
  with update_venda_concluir [OF assms, of u]
  show "update_venda (Some i) u d =
          (d\<lparr>produtos := mover_estoque (\<lambda>p. - qtd_vendida i p d) (produtos d),
             vendas := (vendas d)(i \<mapsto> aplicar_venda_upd u r)\<rparr>,
           Inr (aplicar_venda_upd u r))"
    by simp
next
  assume "produtos d p = Some pr \<and> tipo pr = ''Produto'' \<and> estoque pr = Some s"
  then show "map_option estoque (mover_estoque (\<lambda>p. - qtd_vendida i p d) (produtos d) p) =
          Some (Some (s - qtd_vendida i p d))"
    by (simp add: mover_estoque_def)
next
  show "snd (updateStatus ido st d0) \<noteq> Inl (EstoqueInsuficiente a b)"
  proof
    assume "snd (updateStatus ido st d0) = Inl (EstoqueInsuficiente a b)"
    then have "updateStatus ido st d0 =
                 (fst (updateStatus ido st d0), Inl (EstoqueInsuficiente a b))"
      by (simp add: prod_eq_iff)
    from updateStatus_Inl [OF this] show False by simp
  qed
next
  show "snd (update_venda ido u0 d0) \<noteq> Inl (EstoqueInsuficiente a b)"
  proof
    assume "snd (update_venda ido u0 d0) = Inl (EstoqueInsuficiente a b)"
    then have "update_venda ido u0 d0 =
                 (fst (update_venda ido u0 d0), Inl (EstoqueInsuficiente a b))"
      by (simp add: prod_eq_iff)
    from update_venda_Inl [OF this] show False by simp
  qed
qed

theorem concluir_sem_verificar_estoque_witness:
  "map_option estoque (produtos db_pouco_estoque 1) = Some (Some 2) \<and>
   qtd_vendida 1 1 db_pouco_estoque = 3 \<and>
   (\<exists>r. snd (updateStatus (Some 1) (Some ''Concluida'') db_pouco_estoque) = Inr r) \<and>
   map_option estoque
     (produtos (fst (updateStatus (Some 1) (Some ''Concluida'') db_pouco_estoque)) 1) =
     Some (Some (- 1)) \<and>
   map_option estoque
     (produtos (fst (update_venda (Some 1)
        \<lparr>u_data = None, u_status = Some ''Concluida'', u_observacoes = None,
         u_clienteId = None, u_usuarioId = None, u_total = None\<rparr> db_pouco_estoque)) 1) =
     Some (Some (- 1))"
proof -
  let ?r = "\<lparr>clienteId = 1, usuarioId = 1, data = 0, total = 25,
             status = ''Pendente'', observacoes = None\<rparr>"
  let ?pr = "\<lparr>preco = 10, estoque = Some 2, tipo = ''Produto'', produto_status = ''Ativo''\<rparr>"
  let ?u = "\<lparr>u_data = None, u_status = Some ''Concluida'', u_observacoes = None,
         u_clienteId = None, u_usuarioId = None, u_total = None\<rparr>"
  have v: "vendas db_pouco_estoque 1 = Some ?r"
    by (simp add: db_pouco_estoque_def db_exemplo_def)
  have s: "status ?r \<noteq> ''Concluida''" by simp
  have p: "produtos db_pouco_estoque 1 = Some ?pr"
    by (simp add: db_pouco_estoque_def)
  have q: "qtd_vendida 1 1 db_pouco_estoque = 3"
    by (simp add: qtd_vendida_def itemVenda_findMany_def db_pouco_estoque_def db_exemplo_def)
  from concluir_sem_verificar_estoque [OF v s pouco_estoque_fk, of ?u 1 ?pr 2] p q
  show ?thesis by simp
qed


text \<open>
  C7 (deleting a sale). \<open>remove\<close> on an id that names no sale fails with
  sale-not-found. When the database aborts no statement, \<open>remove\<close> on a sale whose
  status is \<open>Concluida\<close> raises the stock of every product of type \<open>Produto\<close> by
  the quantities of the sale's lines, and deletes the sale and all of its lines; on a
  sale with another status it deletes the sale and its lines and moves no stock. The
  reversal and the delete are atomic: whichever statements the database aborts, and
  wherever the callback throws, a failing \<open>remove\<close> leaves the store as it was,
  though the stock increments issued before the failure were pending in the
  transaction; and a \<open>remove\<close> that succeeds has done all that the run with no
  aborted statement does. That run is \<open>remove_venda\<close>, the callback taken as one
  step.
\<close>

theorem remove_venda_estoque:
  "(vendas d i = None \<longrightarrow> remove_venda_falhas falha (Some i) d = (d, Inl VendaNaoEncontrada)) \<and>
   (vendas d i = Some r \<and> status r = ''Concluida'' \<and> itens_tem_produto d \<longrightarrow>
      remove_venda_falhas (\<lambda>k. False) (Some i) d =
        (d\<lparr>produtos := mover_estoque (\<lambda>p. qtd_vendida i p d) (produtos d),
           vendas := (vendas d)(i := None),
           itens := filter (\<lambda>it. vendaId it \<noteq> i) (itens d)\<rparr>, Inr ())) \<and>
   (vendas d i = Some r \<and> status r \<noteq> ''Concluida'' \<longrightarrow>
      remove_venda_falhas (\<lambda>k. False) (Some i) d =
        (d\<lparr>vendas := (vendas d)(i := None),
           itens := filter (\<lambda>it. vendaId it \<noteq> i) (itens d)\<rparr>, Inr ())) \<and>
   (remove_venda_falhas falha ido d = (d', Inl e) \<longrightarrow> d' = d) \<and>
   (remove_venda_falhas falha ido d = (d', Inr u) \<longrightarrow>
      remove_venda_falhas (\<lambda>k. False) ido d = (d', Inr u)) \<and>
   remove_venda_falhas (\<lambda>k. False) ido d = remove_venda ido d"
proof (intro conjI impI)
  assume "vendas d i = None"
  then show "remove_venda_falhas falha (Some i) d = (d, Inl VendaNaoEncontrada)"
    by (simp add: remove_venda_falhas_def)
next
  assume a: "vendas d i = Some r \<and> status r = ''Concluida'' \<and> itens_tem_produto d"
  then have "vendas d i = Some r" and "status r = ''Concluida''" and "itens_tem_produto d"
    by simp_all
  then show "remove_venda_falhas (\<lambda>k. False) (Some i) d =
        (d\<lparr>produtos := mover_estoque (\<lambda>p. qtd_vendida i p d) (produtos d),
           vendas := (vendas d)(i := None),
           itens := filter (\<lambda>it. vendaId it \<noteq> i) (itens d)\<rparr>, Inr ())"
    unfolding remove_venda_sem_falhas by (rule remove_venda_concluida)
next
  assume "vendas d i = Some r \<and> status r \<noteq> ''Concluida''"
  then have "vendas d i = Some r" and "status r \<noteq> ''Concluida''"
    by simp_all
  then show "remove_venda_falhas (\<lambda>k. False) (Some i) d =
        (d\<lparr>vendas := (vendas d)(i := None),
           itens := filter (\<lambda>it. vendaId it \<noteq> i) (itens d)\<rparr>, Inr ())"
    unfolding remove_venda_sem_falhas by (rule remove_venda_outro_status)
next
  assume "remove_venda_falhas falha ido d = (d', Inl e)"
  then show "d' = d" by (rule remove_venda_falhas_erro)
next
  assume "remove_venda_falhas falha ido d = (d', Inr u)"
  then show "remove_venda_falhas (\<lambda>k. False) ido d = (d', Inr u)"
    unfolding remove_venda_sem_falhas by (rule remove_venda_falhas_Inr)
next
  show "remove_venda_falhas (\<lambda>k. False) ido d = remove_venda ido d"
    by (rule remove_venda_sem_falhas)
qed

theorem remove_venda_estoque_witness:
  "remove_venda_falhas (\<lambda>k. False) (Some 7) db_exemplo = (db_exemplo, Inl VendaNaoEncontrada) \<and>
   snd (remove_venda_falhas (\<lambda>k. False) (Some 2) db_exemplo) = Inr () \<and>
   map_option estoque
     (produtos (fst (remove_venda_falhas (\<lambda>k. False) (Some 2) db_exemplo)) 1) = Some (Some 13) \<and>
   vendas (fst (remove_venda_falhas (\<lambda>k. False) (Some 2) db_exemplo)) 2 = None \<and>
   itemVenda_findMany 2 (fst (remove_venda_falhas (\<lambda>k. False) (Some 2) db_exemplo)) = [] \<and>
   snd (remove_venda_falhas (\<lambda>k. False) (Some 1) db_exemplo) = Inr () \<and>
   produtos (fst (remove_venda_falhas (\<lambda>k. False) (Some 1) db_exemplo)) = produtos db_exemplo \<and>
   itemVenda_findMany 1 (fst (remove_venda_falhas (\<lambda>k. False) (Some 1) db_exemplo)) = [] \<and>
   map_option estoque
     (produtos (tx_view (fst (remove_venda_callback (\<lambda>k. k = 1) 2 (the (vendas db_exemplo 2))
        (itens_com_produto 2 db_exemplo) \<lparr>committed = db_exemplo, pending = []\<rparr>))) 1)
     = Some (Some 13) \<and>
   remove_venda_falhas (\<lambda>k. k = 1) (Some 2) db_exemplo = (db_exemplo, Inl (ErroPrisma P2034)) \<and>
   map_option estoque
     (produtos (tx_view (fst (remove_venda_callback (\<lambda>k. False) 2 (the (vendas db_orfao 2))
        (itens_com_produto 2 db_orfao) \<lparr>committed = db_orfao, pending = []\<rparr>))) 1)
     = Some (Some 13) \<and>
   remove_venda_falhas (\<lambda>k. False) (Some 2) db_orfao = (db_orfao, Inl ErroTipo) \<and>
   remove_venda_falhas (\<lambda>k. k = 5) (Some 2) db_exemplo =
     remove_venda_falhas (\<lambda>k. False) (Some 2) db_exemplo"
proof -
  let ?r1 = "\<lparr>clienteId = 1, usuarioId = 1, data = 0, total = 25, status = ''Pendente'',
              observacoes = None\<rparr>"
  let ?r2 = "\<lparr>clienteId = 1, usuarioId = 1, data = 0, total = 30, status = ''Concluida'',
              observacoes = None\<rparr>"
  let ?sem = "\<lambda>k::nat. False"
  let ?f1 = "\<lambda>k::nat. k = 1"
  let ?f5 = "\<lambda>k::nat. k = 5"
  have v1: "vendas db_exemplo 1 = Some ?r1 \<and> status ?r1 \<noteq> ''Concluida''"
    by (simp add: db_exemplo_def)
  have v2: "vendas db_exemplo 2 = Some ?r2 \<and> status ?r2 = ''Concluida'' \<and>
            itens_tem_produto db_exemplo"
    by (simp add: db_exemplo_def itens_tem_produto_def)
  have v7: "vendas db_exemplo 7 = None"
    by (simp add: db_exemplo_def)
  have p1: "map_option estoque
     (produtos (tx_view (fst (remove_venda_callback ?f1 2 (the (vendas db_exemplo 2))
        (itens_com_produto 2 db_exemplo) \<lparr>committed = db_exemplo, pending = []\<rparr>))) 1)
     = Some (Some 13)"
    by (simp add: db_exemplo_def remove_venda_callback_def tx_stmt_def tx_bind_def
          itens_com_produto_def itemVenda_findMany_def produto_update_estoque_def
          via_tx_def tx_view_def efeito_def)
  have s1: "snd (remove_venda_falhas ?f1 (Some 2) db_exemplo) = Inl (ErroPrisma P2034)"
    by (simp add: db_exemplo_def remove_venda_falhas_def remove_venda_callback_def
          tx_stmt_def tx_bind_def itens_com_produto_def itemVenda_findMany_def
          produto_update_estoque_def transaction_def via_tx_def tx_view_def efeito_def)
  then have h1: "remove_venda_falhas ?f1 (Some 2) db_exemplo =
                  (fst (remove_venda_falhas ?f1 (Some 2) db_exemplo), Inl (ErroPrisma P2034))"
    by (simp add: prod_eq_iff)
  have p2: "map_option estoque
     (produtos (tx_view (fst (remove_venda_callback ?sem 2 (the (vendas db_orfao 2))
        (itens_com_produto 2 db_orfao) \<lparr>committed = db_orfao, pending = []\<rparr>))) 1)
     = Some (Some 13)"
    by (simp add: db_orfao_def db_exemplo_def remove_venda_callback_def tx_stmt_def tx_bind_def
          itens_com_produto_def itemVenda_findMany_def produto_update_estoque_def
          via_tx_def tx_view_def efeito_def)
  have s2: "snd (remove_venda_falhas ?sem (Some 2) db_orfao) = Inl ErroTipo"
    by (simp add: db_orfao_def db_exemplo_def remove_venda_falhas_def remove_venda_callback_def
          tx_stmt_def tx_bind_def itens_com_produto_def itemVenda_findMany_def
          produto_update_estoque_def transaction_def via_tx_def tx_view_def efeito_def)
  then have h2: "remove_venda_falhas ?sem (Some 2) db_orfao =
                  (fst (remove_venda_falhas ?sem (Some 2) db_orfao), Inl ErroTipo)"
    by (simp add: prod_eq_iff)
  have s5: "snd (remove_venda_falhas ?f5 (Some 2) db_exemplo) = Inr ()"
    by (simp add: db_exemplo_def remove_venda_falhas_def remove_venda_callback_def
          tx_stmt_def tx_bind_def itens_com_produto_def itemVenda_findMany_def
          produto_update_estoque_def venda_delete_def transaction_def via_tx_def tx_view_def
          efeito_def)
  then have h5: "remove_venda_falhas ?f5 (Some 2) db_exemplo =
                  (fst (remove_venda_falhas ?f5 (Some 2) db_exemplo), Inr ())"
    by (simp add: prod_eq_iff)
  note a = remove_venda_estoque [where d = db_exemplo and i = 7 and falha = ?sem,
                                 THEN conjunct1, THEN mp, OF v7]
  note b = remove_venda_estoque [where d = db_exemplo and i = 2 and r = ?r2,
                                 THEN conjunct2, THEN conjunct1, THEN mp, OF v2]
  note c = remove_venda_estoque [where d = db_exemplo and i = 1 and r = ?r1,
                                 THEN conjunct2, THEN conjunct2, THEN conjunct1, THEN mp, OF v1]
  note g1 = remove_venda_estoque [where ido = "Some 2" and d = db_exemplo and falha = ?f1
                                   and d' = "fst (remove_venda_falhas ?f1 (Some 2) db_exemplo)"
                                   and e = "ErroPrisma P2034",
                                 THEN conjunct2, THEN conjunct2, THEN conjunct2,
                                 THEN conjunct1, THEN mp, OF h1]
  note g2 = remove_venda_estoque [where ido = "Some 2" and d = db_orfao and falha = ?sem
                                   and d' = "fst (remove_venda_falhas ?sem (Some 2) db_orfao)"
                                   and e = ErroTipo,
                                 THEN conjunct2, THEN conjunct2, THEN conjunct2,
                                 THEN conjunct1, THEN mp, OF h2]
  note g5 = remove_venda_estoque [where ido = "Some 2" and d = db_exemplo and falha = ?f5
                                   and d' = "fst (remove_venda_falhas ?f5 (Some 2) db_exemplo)"
                                   and u = "()",
                                 THEN conjunct2, THEN conjunct2, THEN conjunct2,
                                 THEN conjunct2, THEN conjunct1, THEN mp, OF h5]
  have "remove_venda_falhas ?sem (Some 7) db_exemplo = (db_exemplo, Inl VendaNaoEncontrada)"
    by (rule a)
  moreover have "snd (remove_venda_falhas ?sem (Some 2) db_exemplo) = Inr ()"
    and "map_option estoque (produtos (fst (remove_venda_falhas ?sem (Some 2) db_exemplo)) 1)
           = Some (Some 13)"
    and "vendas (fst (remove_venda_falhas ?sem (Some 2) db_exemplo)) 2 = None"
    and "itemVenda_findMany 2 (fst (remove_venda_falhas ?sem (Some 2) db_exemplo)) = []"
    unfolding b
    by (simp_all add: mover_estoque_def qtd_vendida_def itemVenda_findMany_def db_exemplo_def)
  moreover have "snd (remove_venda_falhas ?sem (Some 1) db_exemplo) = Inr ()"
    and "produtos (fst (remove_venda_falhas ?sem (Some 1) db_exemplo)) = produtos db_exemplo"
    and "itemVenda_findMany 1 (fst (remove_venda_falhas ?sem (Some 1) db_exemplo)) = []"
    unfolding c
    by (simp_all add: itemVenda_findMany_def db_exemplo_def)
  moreover from s1 g1
  have "remove_venda_falhas ?f1 (Some 2) db_exemplo = (db_exemplo, Inl (ErroPrisma P2034))"
    by (simp add: prod_eq_iff)
  moreover from s2 g2
  have "remove_venda_falhas ?sem (Some 2) db_orfao = (db_orfao, Inl ErroTipo)"
    by (simp add: prod_eq_iff)
  moreover from s5 g5
  have "remove_venda_falhas ?f5 (Some 2) db_exemplo =
          remove_venda_falhas ?sem (Some 2) db_exemplo"
    by (simp add: prod_eq_iff)
  ultimately show ?thesis using p1 p2 by simp
qed

text \<open>
  C4 (creating a sale is atomic). The callback of \<open>create\<close> writes the sale row and
  its line rows and then, for a sale created as \<open>Concluida\<close>, looks up and lowers
  the stock line by line; the database may abort any of these statements. Whichever
  it aborts, a failing \<open>create\<close> leaves the store as it was: neither the sale, nor
  a line, nor a stock change that was pending in the transaction remains. A
  successful \<open>create\<close> has written, together, the sale row under a new id, one line
  row per supplied line, in order, with the product, the quantity and the unit price
  of that line, and, when the status of the new sale is \<open>Concluida\<close>, the stock of
  every product of type \<open>Produto\<close> lowered by the quantities the lines ask for;
  with another status the stock is left as it was. The run in which the database
  aborts no statement is \<open>create_venda\<close>, the callback taken as one step.
\<close>

theorem create_venda_atomico:
  "(create_venda_falhas falha req d = (d', Inl e) \<longrightarrow> d' = d) \<and>
   (create_venda_falhas falha req d = (d', Inr (v, novos)) \<longrightarrow> q_itens req = Some linhas \<longrightarrow>
      v = prox_venda_id d \<and>
      length novos = length linhas \<and>
      (\<forall>n<length linhas.
         novos ! n = \<lparr>item_id = prox_item_id d + int n, vendaId = v,
                      produtoId = the (e_produtoId (linhas ! n)),
                      quantidade = the (e_quantidade (linhas ! n)),
                      precoUnit = the (e_precoUnit (linhas ! n))\<rparr>) \<and>
      status (dados_venda req linhas) =
        (if truthy_str (q_status req) then the (q_status req) else ''Pendente'') \<and>
      d' = d\<lparr>vendas := (vendas d)(v \<mapsto> dados_venda req linhas),
             itens := itens d @ novos,
             prox_venda_id := v + 1,
             prox_item_id := prox_item_id d + int (length linhas),
             produtos := (if status (dados_venda req linhas) = ''Concluida''
                          then mover_estoque (\<lambda>p. - qtd_pedida p linhas) (produtos d)
                          else produtos d)\<rparr>) \<and>
   create_venda_falhas (\<lambda>k. False) req d = create_venda req d"
proof (intro conjI impI allI)
  assume "create_venda_falhas falha req d = (d', Inl e)"
  then show "d' = d" by (rule create_venda_falhas_erro)
next
  show "create_venda_falhas (\<lambda>k. False) req d = create_venda req d"
    by (rule create_venda_sem_falhas)
next
  assume f: "create_venda_falhas falha req d = (d', Inr (v, novos))"
    and b: "q_itens req = Some linhas"
  note a = create_venda_falhas_Inr [OF f]
  from create_venda_sucesso [OF a] b
  have tx: "create_venda_tx (dados_venda req linhas) linhas d = Inr (d', (v, novos))"
    by auto
  note e = create_venda_tx_estado [OF tx]
  from e show v: "v = prox_venda_id d" by simp
  from e have n: "novos = numerar v (prox_item_id d)
                (map (\<lambda>item. (the (e_produtoId item), the (e_quantidade item),
                               the (e_precoUnit item))) linhas)" by simp
  from n show "length novos = length linhas" by (simp add: numerar_length)
  show "status (dados_venda req linhas) =
        (if truthy_str (q_status req) then the (q_status req) else ''Pendente'')"
    by (simp add: dados_venda_def)
  from v conjunct2 [OF e]
  show "d' = d\<lparr>vendas := (vendas d)(v \<mapsto> dados_venda req linhas),
             itens := itens d @ novos,
             prox_venda_id := v + 1,
             prox_item_id := prox_item_id d + int (length linhas),
             produtos := (if status (dados_venda req linhas) = ''Concluida''
                          then mover_estoque (\<lambda>p. - qtd_pedida p linhas) (produtos d)
                          else produtos d)\<rparr>"
    by simp
  fix n
  assume "n < length linhas"
  with n show "novos ! n = \<lparr>item_id = prox_item_id d + int n, vendaId = v,
                      produtoId = the (e_produtoId (linhas ! n)),
                      quantidade = the (e_quantidade (linhas ! n)),
                      precoUnit = the (e_precoUnit (linhas ! n))\<rparr>"
    by (simp add: numerar_nth)
qed

theorem create_venda_atomico_witness:
  "snd (create_venda_falhas (\<lambda>k. False) req_exemplo db_exemplo) =
     Inr (3, [\<lparr>item_id = 4, vendaId = 3, produtoId = 1, quantidade = 2, precoUnit = 10\<rparr>,
              \<lparr>item_id = 5, vendaId = 3, produtoId = 2, quantidade = 1, precoUnit = 50\<rparr>]) \<and>
   map_option status
     (vendas (fst (create_venda_falhas (\<lambda>k. False) req_exemplo db_exemplo)) 3)
     = Some ''Concluida'' \<and>
   map_option estoque
     (produtos (fst (create_venda_falhas (\<lambda>k. False) req_exemplo db_exemplo)) 1)
     = Some (Some 8) \<and>
   map_option estoque
     (produtos (fst (create_venda_falhas (\<lambda>k. False) req_exemplo db_exemplo)) 2)
     = Some None \<and>
   itemVenda_findMany 3 (fst (create_venda_falhas (\<lambda>k. False) req_exemplo db_exemplo)) =
     [\<lparr>item_id = 4, vendaId = 3, produtoId = 1, quantidade = 2, precoUnit = 10\<rparr>,
      \<lparr>item_id = 5, vendaId = 3, produtoId = 2, quantidade = 1, precoUnit = 50\<rparr>] \<and>
   map_option status
     (vendas (tx_view (fst (create_venda_callback (\<lambda>k. k = 3)
        (dados_venda req_exemplo (the (q_itens req_exemplo))) (the (q_itens req_exemplo))
        \<lparr>committed = db_exemplo, pending = []\<rparr>))) 3) = Some ''Concluida'' \<and>
   map_option estoque
     (produtos (tx_view (fst (create_venda_callback (\<lambda>k. k = 3)
        (dados_venda req_exemplo (the (q_itens req_exemplo))) (the (q_itens req_exemplo))
        \<lparr>committed = db_exemplo, pending = []\<rparr>))) 1) = Some (Some 8) \<and>
   create_venda_falhas (\<lambda>k. k = 3) req_exemplo db_exemplo =
     (db_exemplo, Inl (ErroPrisma P2034)) \<and>
   create_venda_falhas (\<lambda>k. False) (req_exemplo\<lparr>q_clienteId := Some 9\<rparr>) db_exemplo =
     (db_exemplo, Inl (ErroValidacao [ClienteNaoEncontrado 9]))"
proof -
  let ?linhas = "[\<lparr>e_produtoId = Some 1, e_quantidade = Some 2, e_precoUnit = Some 10\<rparr>,
                  \<lparr>e_produtoId = Some 2, e_quantidade = Some 1, e_precoUnit = Some 50\<rparr>]"
  let ?novos = "[\<lparr>item_id = 4, vendaId = 3, produtoId = 1, quantidade = 2, precoUnit = 10\<rparr>,
                 \<lparr>item_id = 5, vendaId = 3, produtoId = 2, quantidade = 1, precoUnit = 50\<rparr>]"
  let ?bad = "req_exemplo\<lparr>q_clienteId := Some 9\<rparr>"
  let ?sem = "\<lambda>k::nat. False"
  let ?f3 = "\<lambda>k::nat. k = 3"
  have s: "snd (create_venda_falhas ?sem req_exemplo db_exemplo) = Inr (3, ?novos)"
    by (simp add: db_exemplo_def req_exemplo_def create_venda_falhas_def
      create_venda_callback_def tx_stmt_def tx_bind_def tx_return_def produto_findUnique_def
      venda_create_def numerar_def dados_venda_def totalCalculado_def
      verificarExistenciaRegistros_def verificar_produto_def produto_update_estoque_def
      truthy_def truthy_str_def null_as_zero_def transaction_def via_tx_def tx_view_def
      efeito_def Let_def)
  then have h: "create_venda_falhas ?sem req_exemplo db_exemplo =
                  (fst (create_venda_falhas ?sem req_exemplo db_exemplo), Inr (3, ?novos))"
    by (simp add: prod_eq_iff)
  have i: "q_itens req_exemplo = Some ?linhas"
    by (simp add: req_exemplo_def)
  have p1: "map_option status
     (vendas (tx_view (fst (create_venda_callback ?f3
        (dados_venda req_exemplo (the (q_itens req_exemplo))) (the (q_itens req_exemplo))
        \<lparr>committed = db_exemplo, pending = []\<rparr>))) 3) = Some ''Concluida''"
    by (simp add: db_exemplo_def req_exemplo_def
      create_venda_callback_def tx_stmt_def tx_bind_def tx_return_def produto_findUnique_def
      venda_create_def numerar_def dados_venda_def totalCalculado_def
      produto_update_estoque_def
      truthy_def truthy_str_def via_tx_def tx_view_def efeito_def Let_def)
  have p2: "map_option estoque
     (produtos (tx_view (fst (create_venda_callback ?f3
        (dados_venda req_exemplo (the (q_itens req_exemplo))) (the (q_itens req_exemplo))
        \<lparr>committed = db_exemplo, pending = []\<rparr>))) 1) = Some (Some 8)"
    by (simp add: db_exemplo_def req_exemplo_def
      create_venda_callback_def tx_stmt_def tx_bind_def tx_return_def produto_findUnique_def
      venda_create_def numerar_def dados_venda_def totalCalculado_def
      produto_update_estoque_def
      truthy_def truthy_str_def via_tx_def tx_view_def efeito_def Let_def)
  have s3: "snd (create_venda_falhas ?f3 req_exemplo db_exemplo) = Inl (ErroPrisma P2034)"
    by (simp add: db_exemplo_def req_exemplo_def create_venda_falhas_def
      create_venda_callback_def tx_stmt_def tx_bind_def tx_return_def produto_findUnique_def
      venda_create_def numerar_def dados_venda_def totalCalculado_def
      verificarExistenciaRegistros_def verificar_produto_def produto_update_estoque_def
      truthy_def truthy_str_def null_as_zero_def transaction_def via_tx_def tx_view_def
      efeito_def Let_def)
  then have h3: "create_venda_falhas ?f3 req_exemplo db_exemplo =
                  (fst (create_venda_falhas ?f3 req_exemplo db_exemplo), Inl (ErroPrisma P2034))"
    by (simp add: prod_eq_iff)
  have b1: "snd (create_venda_falhas ?sem ?bad db_exemplo) =
              Inl (ErroValidacao [ClienteNaoEncontrado 9])"
    by (simp add: db_exemplo_def req_exemplo_def create_venda_falhas_def
      verificarExistenciaRegistros_def verificar_produto_def
      truthy_def truthy_str_def null_as_zero_def Let_def)
  then have b2: "create_venda_falhas ?sem ?bad db_exemplo =
                  (fst (create_venda_falhas ?sem ?bad db_exemplo),
                   Inl (ErroValidacao [ClienteNaoEncontrado 9]))"
    by (simp add: prod_eq_iff)
  note t = create_venda_atomico
         [where req = req_exemplo and d = db_exemplo and falha = ?sem
            and d' = "fst (create_venda_falhas ?sem req_exemplo db_exemplo)" and linhas = ?linhas
            and v = 3 and novos = ?novos]
  note d = t [THEN conjunct2, THEN conjunct1, THEN mp, OF h, THEN mp, OF i,
              THEN conjunct2, THEN conjunct2, THEN conjunct2, THEN conjunct2]
  have c1: "map_option status
              (vendas (fst (create_venda_falhas ?sem req_exemplo db_exemplo)) 3)
              = Some ''Concluida''"
    and c2: "map_option estoque
               (produtos (fst (create_venda_falhas ?sem req_exemplo db_exemplo)) 1)
               = Some (Some 8)"
    and c3: "map_option estoque
               (produtos (fst (create_venda_falhas ?sem req_exemplo db_exemplo)) 2)
               = Some None"
    and c4: "itemVenda_findMany 3 (fst (create_venda_falhas ?sem req_exemplo db_exemplo))
               = ?novos"
    unfolding d
    by (simp_all add: dados_venda_def req_exemplo_def truthy_str_def mover_estoque_def
          qtd_pedida_def db_exemplo_def itemVenda_findMany_def)
  note e1 = create_venda_atomico
         [where req = req_exemplo and d = db_exemplo and falha = ?f3
            and d' = "fst (create_venda_falhas ?f3 req_exemplo db_exemplo)"
            and e = "ErroPrisma P2034",
          THEN conjunct1, THEN mp, OF h3]
  note e2 = create_venda_atomico
         [where req = ?bad and d = db_exemplo and falha = ?sem
            and d' = "fst (create_venda_falhas ?sem ?bad db_exemplo)"
            and e = "ErroValidacao [ClienteNaoEncontrado 9]",
          THEN conjunct1, THEN mp, OF b2]
  from s3 e1
  have f3: "create_venda_falhas ?f3 req_exemplo db_exemplo =
              (db_exemplo, Inl (ErroPrisma P2034))"
    by (simp add: prod_eq_iff)
  from b1 e2
  have f9: "create_venda_falhas ?sem ?bad db_exemplo =
              (db_exemplo, Inl (ErroValidacao [ClienteNaoEncontrado 9]))"
    by (simp add: prod_eq_iff)
  from s c1 c2 c3 c4 p1 p2 f3 f9 show ?thesis by simp
qed

text \<open>
  C6 (net quantity on update). For \<open>update\<close> on an existing line of a pending
  sale, with a valid payload that gives a product or a quantity, the stock check
  compares the stock of the target product with the requested quantity minus the
  quantity the line holds: the update fails for insufficient stock, reporting that
  difference, exactly when the stock is below it, and otherwise it succeeds and the
  line holds the requested quantity and product. The target product is taken to
  exist and to be active, and the line's id to be non-zero, as generated ids are.
\<close>

theorem update_item_estoque_liquido:
  assumes item: "itemVenda_findUnique i d = Some itemAtual" and id: "i \<noteq> 0"
    and venda: "vendas d (vendaId itemAtual) = Some v" and pend: "status v = ''Pendente''"
    and valid: "validarItemVenda req True = []"
    and muda: "truthy (r_produtoId req) \<or> truthy (r_quantidade req)"
    and pa: "produtoAlvo = (if truthy (r_produtoId req) then the (r_produtoId req)
                            else produtoId itemAtual)"
    and qa: "quantidadeAlvo = (if truthy (r_quantidade req) then the (r_quantidade req)
                               else quantidade itemAtual)"
    and prod: "produtos d produtoAlvo = Some produto" and ativo: "produto_status produto = ''Ativo''"
  shows "(null_as_zero (estoque produto) < quantidadeAlvo - quantidade itemAtual \<longrightarrow>
            update_item (Some i) req d =
              (d, Inl (EstoqueInsuficiente (estoque produto)
                         (quantidadeAlvo - quantidade itemAtual)))) \<and>
         (quantidadeAlvo - quantidade itemAtual \<le> null_as_zero (estoque produto) \<longrightarrow>
            (\<exists>d' it'. update_item (Some i) req d = (d', Inr it') \<and>
                quantidade it' = quantidadeAlvo \<and> produtoId it' = produtoAlvo \<and>
                itemVenda_findUnique i d' = Some it'))"
proof -
  let ?net = "quantidadeAlvo - quantidade itemAtual"
  let ?da = "\<lparr>da_quantidade = (if truthy (r_quantidade req) then r_quantidade req else None),
              da_precoUnit = (if truthy (r_precoUnit req) then r_precoUnit req else None),
              da_produtoId = (if truthy (r_produtoId req) then r_produtoId req else None)\<rparr>"
  have guard: "verificarVendaModificavel (Some (vendaId itemAtual)) d = Inr v"
    using venda pend by (simp add: verificarVendaModificavel_def)
  note disp = verificarDisponibilidadeProduto_update [OF item id prod ativo, of quantidadeAlvo]
  have pre: "update_item (Some i) req d =
      (if null_as_zero (estoque produto) < ?net
       then (d, Inl (EstoqueInsuficiente (estoque produto) ?net))
       else transaction
              (tx_bind (via_tx (itemVenda_update i ?da))
                 (\<lambda>itemAtualizado.
                    tx_bind (via_prisma (atualizarTotalVenda (vendaId itemAtualizado)))
                      (\<lambda>t. tx_return itemAtualizado)))
              d)"
    using item venda valid muda guard disp
    unfolding update_item_def Let_def pa qa
    by (simp split: if_splits)
  show ?thesis
  proof (intro conjI impI)
    assume "null_as_zero (estoque produto) < ?net"
    with pre show "update_item (Some i) req d = (d, Inl (EstoqueInsuficiente (estoque produto) ?net))"
      by simp
  next
    assume le: "?net \<le> null_as_zero (estoque produto)"
    have fk: "case da_produtoId ?da of None \<Rightarrow> True | Some p \<Rightarrow> produtos d p \<noteq> None"
      using prod pa by (auto simp: truthy_def split: option.splits)
    note up = itemVenda_update_Inr [OF item fk]
    let ?it' = "aplicar_dados ?da itemAtual"
    have vid: "vendaId ?it' = vendaId itemAtual" by (simp add: aplicar_dados_def)
    from atualizarTotalVenda_Inr [OF venda] obtain d2 t where
      at: "atualizarTotalVenda (vendaId itemAtual) d = Inr (d2, t)" and it2: "itens d2 = itens d"
      by blast
    have f2: "itemVenda_findUnique i d2 = Some itemAtual"
      using item it2 by (simp add: itemVenda_findUnique_def)
    have fk2: "case da_produtoId ?da of None \<Rightarrow> True | Some p \<Rightarrow> produtos d2 p \<noteq> None"
      using fk at by (auto simp: atualizarTotalVenda_def venda_update_def Let_def split: option.splits)
    have res: "update_item (Some i) req d =
                 (efeito (itemVenda_update i ?da) d2, Inr ?it')"
      using pre le up at vid by (simp add: transaction_tx_prisma)
    have "itemVenda_findUnique i (efeito (itemVenda_update i ?da) d2) = Some ?it'"
      using f2 by (simp add: efeito_def itemVenda_update_Inr [OF f2 fk2] itemVenda_findUnique_def
                     find_map_item)
    moreover have "quantidade ?it' = quantidadeAlvo" "produtoId ?it' = produtoAlvo"
      using qa pa by (auto simp: aplicar_dados_def truthy_def split: option.splits)
    ultimately show "\<exists>d' it'. update_item (Some i) req d = (d', Inr it') \<and>
                quantidade it' = quantidadeAlvo \<and> produtoId it' = produtoAlvo \<and>
                itemVenda_findUnique i d' = Some it'"
      using res by blast
  qed
qed


theorem update_item_estoque_liquido_witness:
  "(\<exists>d' it'. update_item (Some 2) \<lparr>r_vendaId = None, r_produtoId = None,
                   r_quantidade = Some 11, r_precoUnit = None\<rparr> db_exemplo = (d', Inr it') \<and>
       quantidade it' = 11 \<and> produtoId it' = 1 \<and> itemVenda_findUnique 2 d' = Some it') \<and>
   update_item (Some 2) \<lparr>r_vendaId = None, r_produtoId = None,
                   r_quantidade = Some 12, r_precoUnit = None\<rparr> db_exemplo =
     (db_exemplo, Inl (EstoqueInsuficiente (Some 10) 11))"
proof -
  let ?it = "\<lparr>item_id = 2, vendaId = 1, produtoId = 1, quantidade = 1, precoUnit = 5\<rparr>"
  let ?v = "\<lparr>clienteId = 1, usuarioId = 1, data = 0, total = 25, status = ''Pendente'',
             observacoes = None\<rparr>"
  let ?p = "\<lparr>preco = 10, estoque = Some 10, tipo = ''Produto'', produto_status = ''Ativo''\<rparr>"
  let ?r11 = "\<lparr>r_vendaId = None, r_produtoId = None, r_quantidade = Some 11,
               r_precoUnit = None\<rparr>"
  let ?r12 = "\<lparr>r_vendaId = None, r_produtoId = None, r_quantidade = Some 12,
               r_precoUnit = None\<rparr>"
  have item: "itemVenda_findUnique 2 db_exemplo = Some ?it"
    by (simp add: itemVenda_findUnique_def db_exemplo_def)
  have id: "(2::int) \<noteq> 0" by simp
  have venda: "vendas db_exemplo (vendaId ?it) = Some ?v"
    by (simp add: db_exemplo_def)
  have pend: "status ?v = ''Pendente''" by simp
  have v11: "validarItemVenda ?r11 True = []" and v12: "validarItemVenda ?r12 True = []"
    by (simp_all add: validarItemVenda_def)
  have m11: "truthy (r_produtoId ?r11) \<or> truthy (r_quantidade ?r11)"
    and m12: "truthy (r_produtoId ?r12) \<or> truthy (r_quantidade ?r12)"
    by (simp_all add: truthy_def)
  have pa11: "(1::int) = (if truthy (r_produtoId ?r11) then the (r_produtoId ?r11)
                          else produtoId ?it)"
    and pa12: "(1::int) = (if truthy (r_produtoId ?r12) then the (r_produtoId ?r12)
                           else produtoId ?it)"
    by (simp_all add: truthy_def)
  have qa11: "(11::int) = (if truthy (r_quantidade ?r11) then the (r_quantidade ?r11)
                           else quantidade ?it)"
    and qa12: "(12::int) = (if truthy (r_quantidade ?r12) then the (r_quantidade ?r12)
                            else quantidade ?it)"
    by (simp_all add: truthy_def)
  have prod: "produtos db_exemplo 1 = Some ?p" by (simp add: db_exemplo_def)
  have ativo: "produto_status ?p = ''Ativo''" by simp
  have le: "(11::int) - quantidade ?it \<le> null_as_zero (estoque ?p)"
    and lt: "null_as_zero (estoque ?p) < (12::int) - quantidade ?it"
    by (simp_all add: null_as_zero_def)
  note a = update_item_estoque_liquido [OF item id venda pend v11 m11 pa11 qa11 prod ativo,
             THEN conjunct2, THEN mp, OF le]
  note b = update_item_estoque_liquido [OF item id venda pend v12 m12 pa12 qa12 prod ativo,
             THEN conjunct1, THEN mp, OF lt]
  from a b show ?thesis by simp
qed

end
